theory Spec2Isabelle
  imports Complex_Main "HOL-Library.Log_Nat" "HOL-Library.Sublist" "HOL-Library.Multiset"
begin

section \<open>JavaScript values\<close>

subsection \<open>Strings\<close>

text \<open>
  A JavaScript string is a sequence of UTF-16 code units and \<open>length\<close> counts code units.
  The model keeps the code units \<open>0..255\<close> (Latin-1, which holds every character of the
  keyword tables and of Portuguese text), one \<^typ>\<open>char\<close> per code unit, so that
  \<^const>\<open>length\<close> is the \<open>length\<close> of the source.
\<close>

text \<open>\<open>s.includes(t)\<close>: \<open>t\<close> occurs in \<open>s\<close> as a contiguous run.\<close>

fun str_includes :: "string \<Rightarrow> string \<Rightarrow> bool" where
  "str_includes [] t = (t = [])"
| "str_includes (c # s) t = (prefix t (c # s) \<or> str_includes s t)"

text \<open>\<open>xs.some(p)\<close>, \<open>xs.every(p)\<close> and \<open>xs.includes(x)\<close> on arrays.\<close>

definition some :: "'a list \<Rightarrow> ('a \<Rightarrow> bool) \<Rightarrow> bool" where
  "some xs p = list_ex p xs"

definition arr_includes :: "'a list \<Rightarrow> 'a \<Rightarrow> bool" where
  "arr_includes xs x = (x \<in> set xs)"

text \<open>
  White space as \<open>\s\<close> and \<open>trim\<close> see it, within Latin-1: TAB, LF, VT, FF, CR, space and
  the no-break space.
\<close>

definition is_space :: "char \<Rightarrow> bool" where
  "is_space c = (let n = (of_char c :: int) in (9 \<le> n \<and> n \<le> 13) \<or> n = 32 \<or> n = 160)"

text \<open>\<open>s.trim().length > 0\<close>: some code unit of \<open>s\<close> is not white space.\<close>

definition trim_nonempty :: "string \<Rightarrow> bool" where
  "trim_nonempty s = list_ex (\<lambda>c. \<not> is_space c) s"

text \<open>
  \<open>s.split(/\s+/)\<close>: the pieces between maximal runs of white space; a leading or a
  trailing run leaves an empty piece, and the empty string gives one empty piece.
\<close>

function split_ws :: "string \<Rightarrow> string list" where
  "split_ws [] = [[]]"
| "split_ws (c # cs) =
     (if is_space c then [] # split_ws (dropWhile is_space cs)
      else (case split_ws cs of [] \<Rightarrow> [[c]] | w # ws \<Rightarrow> (c # w) # ws))"
  by pat_completeness auto
termination
  by (relation "measure length") (auto simp: length_dropWhile_le less_Suc_eq_le)

text \<open>
  \<open>s.toLowerCase()\<close> on Latin-1: \<open>A-Z\<close> and the capital letters \<open>0xC0-0xDE\<close>
  (all but the multiplication sign \<open>0xD7\<close>) move up by 32.
\<close>

definition lower_char :: "char \<Rightarrow> char" where
  "lower_char c = (let n = (of_char c :: int) in
     if (65 \<le> n \<and> n \<le> 90) \<or> (192 \<le> n \<and> n \<le> 222 \<and> n \<noteq> 215)
     then char_of (n + 32) else c)"

definition toLowerCase :: "string \<Rightarrow> string" where
  "toLowerCase s = map lower_char s"

text \<open>
  \<open>s.normalize('NFD').replace(/\p{Diacritic}/gu, '')\<close> on Latin-1. Canonical decomposition
  splits an accented letter into its base letter and combining marks, all of which have the
  property Diacritic and are removed; the letters \<open>0xC6 0xD0 0xD7 0xD8 0xDE 0xDF 0xE6 0xF0
  0xF7 0xF8 0xFE\<close> do not decompose. Seven Latin-1 code units are Diacritic themselves
  (circumflex \<open>0x5E\<close>, grave \<open>0x60\<close>, diaeresis \<open>0xA8\<close>, macron \<open>0xAF\<close>, acute \<open>0xB4\<close>,
  middle dot \<open>0xB7\<close>, cedilla \<open>0xB8\<close>) and are removed as well.
\<close>

definition is_diacritic :: "char \<Rightarrow> bool" where
  "is_diacritic c = (let n = (of_char c :: int) in
     n = 94 \<or> n = 96 \<or> n = 168 \<or> n = 175 \<or> n = 180 \<or> n = 183 \<or> n = 184)"

definition base_char :: "char \<Rightarrow> char" where
  "base_char c = (let n = (of_char c :: int) in
     if 192 \<le> n \<and> n \<le> 197 then CHR ''A''
     else if n = 199 then CHR ''C''
     else if 200 \<le> n \<and> n \<le> 203 then CHR ''E''
     else if 204 \<le> n \<and> n \<le> 207 then CHR ''I''
     else if n = 209 then CHR ''N''
     else if 210 \<le> n \<and> n \<le> 214 then CHR ''O''
     else if 217 \<le> n \<and> n \<le> 220 then CHR ''U''
     else if n = 221 then CHR ''Y''
     else if 224 \<le> n \<and> n \<le> 229 then CHR ''a''
     else if n = 231 then CHR ''c''
     else if 232 \<le> n \<and> n \<le> 235 then CHR ''e''
     else if 236 \<le> n \<and> n \<le> 239 then CHR ''i''
     else if n = 241 then CHR ''n''
     else if 242 \<le> n \<and> n \<le> 246 then CHR ''o''
     else if 249 \<le> n \<and> n \<le> 252 then CHR ''u''
     else if n = 253 \<or> n = 255 then CHR ''y''
     else c)"

definition strip_diacritics :: "string \<Rightarrow> string" where
  "strip_diacritics s = map base_char (filter (\<lambda>c. \<not> is_diacritic c) s)"

text \<open>
  The helper \<open>normalize\<close> that every service declares:
  \<open>(s || '').toString().normalize('NFD').replace(/\p{Diacritic}/gu, '').toLowerCase()\<close>.
\<close>

definition normalize_js :: "string \<Rightarrow> string" where
  "normalize_js s = toLowerCase (strip_diacritics s)"

text \<open>
  The test \<open>/[a-z\<dots>]/i.test(w)\<close> with the accented vowels and the cedilla of the source's
  character class: some code unit of \<open>w\<close> is an ASCII letter or one of
  \<open>0xE0-0xE3 0xE7-0xEA 0xEC-0xEE 0xF2-0xF5 0xF9-0xFB\<close> in either case.
\<close>

definition is_name_letter :: "char \<Rightarrow> bool" where
  "is_name_letter c = (let n = (of_char (lower_char c) :: int) in
     (97 \<le> n \<and> n \<le> 122) \<or> (224 \<le> n \<and> n \<le> 227) \<or> (231 \<le> n \<and> n \<le> 234)
     \<or> (236 \<le> n \<and> n \<le> 238) \<or> (242 \<le> n \<and> n \<le> 245) \<or> (249 \<le> n \<and> n \<le> 251))"

definition has_letter :: "string \<Rightarrow> bool" where
  "has_letter w = list_ex is_name_letter w"

subsection \<open>Numbers\<close>

text \<open>
  A JavaScript number is an IEEE-754 double. A finite double is a rational, and every
  arithmetic operation returns the exact result rounded to the nearest double, ties to the
  even significand. \<open>fl\<close> is that rounding for magnitudes in the normal range (no overflow,
  no subnormals, no NaN): with \<open>2^e \<le> |x| < 2^(e+1)\<close> the doubles around \<open>x\<close> are the
  multiples of \<open>2^(e-52)\<close>. Counts and lengths are integers below \<open>2^53\<close>, on which the
  double operations are exact; they are modelled as \<^typ>\<open>nat\<close>.
\<close>

definition pow2 :: "int \<Rightarrow> rat" where
  "pow2 e = (if 0 \<le> e then 2 ^ nat e else 1 / 2 ^ nat (- e))"

definition ilog2 :: "rat \<Rightarrow> int" where
  "ilog2 x = (let d = bitlen (fst (quotient_of x)) - bitlen (snd (quotient_of x))
              in if pow2 d \<le> x then d else d - 1)"

definition round_even :: "rat \<Rightarrow> int" where
  "round_even x = (let f = \<lfloor>x\<rfloor>; r = x - of_int f
     in if r < 1 / 2 then f else if 1 / 2 < r then f + 1 else if even f then f else f + 1)"

definition fl :: "rat \<Rightarrow> rat" where
  "fl x = (if x = 0 then 0
           else let u = pow2 (ilog2 \<bar>x\<bar> - 52)
                in sgn x * of_int (round_even (\<bar>x\<bar> / u)) * u)"

definition fadd :: "rat \<Rightarrow> rat \<Rightarrow> rat" where
  "fadd x y = fl (x + y)"

definition fsub :: "rat \<Rightarrow> rat \<Rightarrow> rat" where
  "fsub x y = fl (x - y)"

definition fmul :: "rat \<Rightarrow> rat \<Rightarrow> rat" where
  "fmul x y = fl (x * y)"

definition fdiv :: "rat \<Rightarrow> rat \<Rightarrow> rat" where
  "fdiv x y = fl (x / y)"

text \<open>
  \<open>x.toFixed(d)\<close> for \<open>0 \<le> x\<close>: the decimal \<open>n / 10^d\<close> with \<open>n\<close> the integer nearest to
  \<open>x * 10^d\<close> on the exact value of the double, the larger \<open>n\<close> on a tie. The string is
  represented by the rational it denotes; \<open>Number(x.toFixed(d))\<close> rounds it to a double.
\<close>

definition toFixed :: "nat \<Rightarrow> rat \<Rightarrow> rat" where
  "toFixed d x = of_int \<lfloor>x * 10 ^ d + 1 / 2\<rfloor> / 10 ^ d"

subsection \<open>Objects\<close>

text \<open>
  Reading \<open>obj[key]\<close> from an object literal looks the key up among the own properties and
  then along the prototype chain: the names of the members of \<open>Object.prototype\<close> find a
  function (the prototype object itself for \<open>__proto__\<close>), and every other key gives
  \<open>undefined\<close>. An inherited member is truthy, and as an operand of arithmetic it is \<open>NaN\<close>.
\<close>

datatype 'a property = Own 'a | Inherited

definition object_prototype_members :: "string list" where
  "object_prototype_members =
     [''constructor'', ''__defineGetter__'', ''__defineSetter__'', ''hasOwnProperty'',
      ''__lookupGetter__'', ''__lookupSetter__'', ''isPrototypeOf'', ''propertyIsEnumerable'',
      ''toString'', ''valueOf'', ''__proto__'', ''toLocaleString'']"

section \<open>orchestrator.js: response arbitration and confidence\<close>

text \<open>
  Records of the orchestrator. A field read with \<open>?.\<close> or defaulted with \<open>||\<close> in the source
  is an option (\<open>None\<close> for \<open>undefined\<close>). A resident's \<open>name\<close> is a string, as the data
  model declares it.
\<close>

record resident =
  name :: string
  neighborhood :: "string option"
  whatsapp :: "string option"
  satisfaction :: "string option"
  issue :: "string option"
  participateInterest :: "string option"
  priority :: "string option"

record agent_analysis =
  summary :: "string option"
  atype :: "string option"
  residents :: "resident list option"
  insights :: "string list option"
  recommendations :: "string list option"

record agent_result =
  analysis :: "agent_analysis option"
  agent :: "string option"

record llm_result =
  response :: "string option"
  level :: "string option"

record scope_info =
  inScope :: bool
  confidence :: rat
  categories :: "string list"
  canonicalIntent :: "string option"
  reason :: string

record query_analysis =
  scope :: scope_info
  intent :: string
  queryType :: string
  dataNeeds :: "string list"
  urgency :: string
  blocked :: bool

datatype js_error = TypeError | Thrown string

record final_response =
  fr_query :: string
  fr_intent :: string
  fr_response :: "string option"
  fr_residents :: "resident list"
  fr_insights :: "string list"
  fr_recommendations :: "string list"
  fr_success :: bool
  fr_confidence :: "rat option"
  fr_responseQuality :: "string option"
  fr_llmEnhanced :: bool

text \<open>\<open>agentResult.analysis?.f\<close> for an optional field \<open>f\<close>.\<close>

definition analysis_field :: "(agent_analysis \<Rightarrow> 'a option) \<Rightarrow> agent_result \<Rightarrow> 'a option" where
  "analysis_field f agentResult = (case analysis agentResult of None \<Rightarrow> None | Some a \<Rightarrow> f a)"

text \<open>\<open>llmResult?.quality?.level\<close>.\<close>

definition quality_level :: "llm_result option \<Rightarrow> string option" where
  "quality_level llmResult = (case llmResult of None \<Rightarrow> None | Some l \<Rightarrow> level l)"

text \<open>\<open>agentResult.analysis?.residents?.length > 0\<close>.\<close>

definition has_residents :: "agent_result \<Rightarrow> bool" where
  "has_residents agentResult =
     (case analysis_field residents agentResult of None \<Rightarrow> False | Some rs \<Rightarrow> 0 < length rs)"

definition calculateConfidence :: "agent_result \<Rightarrow> llm_result option \<Rightarrow> rat" where
  "calculateConfidence agentResult llmResult =
     (let confidence = fl (7 / 10);
          confidence = (if has_residents agentResult then fadd confidence (fl (15 / 100))
                        else confidence);
          confidence = (if quality_level llmResult = Some ''excellent''
                        then fadd confidence (fl (1 / 10))
                        else if quality_level llmResult = Some ''good''
                        then fadd confidence (fl (5 / 100))
                        else confidence)
      in min confidence (fl (95 / 100)))"

text \<open>
  The deterministic candidate \<open>agentResult.analysis?.summary || 'Analysis completed'\<close>;
  an empty summary is falsy.
\<close>

definition deterministic_text :: "agent_result \<Rightarrow> string" where
  "deterministic_text agentResult =
     (case analysis_field summary agentResult of
        None \<Rightarrow> ''Analysis completed''
      | Some s \<Rightarrow> if s = [] then ''Analysis completed'' else s)"

definition isNameSearch :: "query_analysis \<Rightarrow> bool" where
  "isNameSearch queryAnalysis = arr_includes (dataNeeds queryAnalysis) ''name_search''"

text \<open>\<open>agentResult.analysis?.residents?.some(r => text.includes(r.name))\<close>.\<close>

definition hasRealData :: "agent_result \<Rightarrow> string \<Rightarrow> bool" where
  "hasRealData agentResult text =
     (case analysis_field residents agentResult of
        None \<Rightarrow> False
      | Some rs \<Rightarrow> some rs (\<lambda>r. str_includes text (name r)))"

text \<open>
  The branches of \<open>constructFinalResponse\<close> that pick \<open>primaryResponse\<close> and
  \<open>responseQuality\<close>. With \<open>llmResult.response\<close> undefined the source throws a TypeError
  where it calls \<open>.includes\<close> (inside \<open>some\<close>, so only for a non-empty resident list) or
  reads \<open>.length\<close>. The product \<open>primaryResponse.length * 1.5\<close> is exact in double
  arithmetic and is written as a rational.
\<close>

definition choose_response ::
  "query_analysis \<Rightarrow> agent_result \<Rightarrow> llm_result option \<Rightarrow> js_error + (string option \<times> string)" where
  "choose_response queryAnalysis agentResult llmResult =
     (let primaryResponse = deterministic_text agentResult in
      if isNameSearch queryAnalysis \<and> analysis_field atype agentResult = Some ''name_search_result''
      then Inr (analysis_field summary agentResult, ''focused_search'')
      else if quality_level llmResult = Some ''excellent'' \<or> quality_level llmResult = Some ''good''
      then (case llmResult of
              None \<Rightarrow> Inr (Some primaryResponse, ''data-driven'')
            | Some l \<Rightarrow>
               (case response l of
                  None \<Rightarrow>
                    if has_residents agentResult then Inl TypeError
                    else if isNameSearch queryAnalysis
                    then Inr (Some primaryResponse, ''focused_search'')
                    else Inl TypeError
                | Some text \<Rightarrow>
                    if isNameSearch queryAnalysis
                    then (if hasRealData agentResult text \<and> length text < 500
                          then Inr (Some text, ''llm-enhanced'')
                          else Inr (Some primaryResponse, ''focused_search''))
                    else (if hasRealData agentResult text
                             \<or> (of_nat (length primaryResponse) * (3 / 2) :: rat) < of_nat (length text)
                          then Inr (Some text, ''llm-enhanced'')
                          else Inr (Some primaryResponse, ''data-driven''))))
      else (case llmResult of
              None \<Rightarrow> Inr (Some primaryResponse, ''data-driven'')
            | Some l \<Rightarrow>
                if isNameSearch queryAnalysis
                then (case response l of
                        None \<Rightarrow> Inr (Some primaryResponse, ''data-driven'')
                      | Some text \<Rightarrow>
                          if text \<noteq> [] \<and> trim_nonempty text \<and> length text < 500
                          then Inr (Some text, ''llm-enhanced'')
                          else Inr (Some primaryResponse, ''data-driven''))
                else Inr (Some primaryResponse, ''data-driven'')))"

text \<open>
  \<open>constructFinalResponse\<close>. Of the returned object the model keeps the fields below; the
  clock readings, the statistics snapshot copied from the context and the provenance block
  are left out.
\<close>

definition constructFinalResponse ::
  "string \<Rightarrow> query_analysis \<Rightarrow> agent_result \<Rightarrow> llm_result option \<Rightarrow> js_error + final_response" where
  "constructFinalResponse query queryAnalysis agentResult llmResult =
     (case choose_response queryAnalysis agentResult llmResult of
        Inl e \<Rightarrow> Inl e
      | Inr (primaryResponse, responseQuality) \<Rightarrow>
          Inr \<lparr> fr_query = query,
                fr_intent = intent queryAnalysis,
                fr_response = primaryResponse,
                fr_residents = (case analysis_field residents agentResult of
                                  None \<Rightarrow> [] | Some rs \<Rightarrow> rs),
                fr_insights = (if isNameSearch queryAnalysis then []
                               else (case analysis_field insights agentResult of
                                       None \<Rightarrow> [] | Some xs \<Rightarrow> xs)),
                fr_recommendations = (if isNameSearch queryAnalysis then []
                               else (case analysis_field recommendations agentResult of
                                       None \<Rightarrow> [] | Some xs \<Rightarrow> xs)),
                fr_success = True,
                fr_confidence = Some (calculateConfidence agentResult llmResult),
                fr_responseQuality = Some responseQuality,
                fr_llmEnhanced = (responseQuality = ''llm-enhanced'') \<rparr>)"

section \<open>services/ResidentFilterService.js\<close>

record survey =
  sv_issue :: "string option"
  sv_satisfaction :: "string option"
  sv_participate :: "string option"

record contact =
  c_name :: string
  c_neighborhood :: "string option"
  c_whatsapp :: "string option"
  c_survey :: "survey option"

text \<open>\<open>contact.survey.f\<close> in the rows built after a filter has kept the contact.\<close>

definition survey_field :: "(survey \<Rightarrow> 'a option) \<Rightarrow> contact \<Rightarrow> 'a option" where
  "survey_field f c = (case c_survey c of None \<Rightarrow> None | Some s \<Rightarrow> f s)"

definition row :: "contact \<Rightarrow> string option \<Rightarrow> resident" where
  "row c p = \<lparr> name = c_name c,
              neighborhood = c_neighborhood c,
              whatsapp = c_whatsapp c,
              satisfaction = survey_field sv_satisfaction c,
              issue = survey_field sv_issue c,
              participateInterest = survey_field sv_participate c,
              priority = p \<rparr>"

definition filterDissatisfied :: "contact list \<Rightarrow> resident list" where
  "filterDissatisfied contacts =
     map (\<lambda>c. row c (if survey_field sv_satisfaction c = Some ''Muito insatisfeito''
                       then Some ''HIGH'' else Some ''MEDIUM''))
       (filter (\<lambda>c. case c_survey c of
                       None \<Rightarrow> False
                     | Some s \<Rightarrow> sv_satisfaction s = Some ''Muito insatisfeito''
                               \<or> sv_satisfaction s = Some ''Insatisfeito'') contacts)"

definition filterSatisfied :: "contact list \<Rightarrow> resident list" where
  "filterSatisfied contacts =
     map (\<lambda>c. row c (if survey_field sv_satisfaction c = Some ''Muito satisfeito''
                       then Some ''ADVOCATE'' else Some ''POSITIVE''))
       (filter (\<lambda>c. case c_survey c of
                       None \<Rightarrow> False
                     | Some s \<Rightarrow> sv_satisfaction s = Some ''Muito satisfeito''
                               \<or> sv_satisfaction s = Some ''Satisfeito'') contacts)"

text \<open>\<open>contact.survey && contact.survey.participate === 'Sim'\<close>: a strict comparison.\<close>

definition interested :: "contact \<Rightarrow> bool" where
  "interested c = (case c_survey c of None \<Rightarrow> False | Some s \<Rightarrow> sv_participate s = Some ''Sim'')"

definition filterParticipationInterested :: "contact list \<Rightarrow> resident list" where
  "filterParticipationInterested contacts =
     map (\<lambda>c. row c (Some ''ENGAGED'')) (filter interested contacts)"

text \<open>
  The predicate of \<open>filterParticipationNotInterested\<close>: a missing or empty answer is
  rejected, any other is normalised (NFD, diacritics removed, lower case) and compared
  with \<open>nao\<close> and \<open>no\<close>.
\<close>

definition not_interested :: "contact \<Rightarrow> bool" where
  "not_interested c =
     (case survey_field sv_participate c of
        None \<Rightarrow> False
      | Some p \<Rightarrow> if p = [] then False
                  else (let normalized = toLowerCase (strip_diacritics p)
                        in c_survey c \<noteq> None \<and> (normalized = ''nao'' \<or> normalized = ''no'')))"

definition filterParticipationNotInterested :: "contact list \<Rightarrow> resident list" where
  "filterParticipationNotInterested contacts =
     map (\<lambda>c. row c (Some ''NOT_WILLING'')) (filter not_interested contacts)"

definition filterAllWithSurvey :: "contact list \<Rightarrow> resident list" where
  "filterAllWithSurvey contacts =
     map (\<lambda>c. row c None) (filter (\<lambda>c. c_survey c \<noteq> None) contacts)"

text \<open>The keyword tables of \<open>isNameSearchQuery\<close>, accents as in the source.\<close>

definition analysisKeywords :: "string list" where
  "analysisKeywords =
    [''an'' @ [CHR 0xE1] @ ''lise'', ''analysis'', ''relat'' @ [CHR 0xF3] @ ''rio'', ''report'',
     ''estat'' @ [CHR 0xED] @ ''stica'', ''statistics'',
     ''satisfa'' @ [CHR 0xE7, CHR 0xE3] @ ''o'', ''satisfaction'', ''engajamento'', ''engagement'',
     ''bairro'', ''neighborhood'', ''bairros'', ''neighborhoods'',
     ''resumo'', ''summary'', ''overview'', ''vis'' @ [CHR 0xE3] @ ''o'', ''view'', ''visao'',
     ''problema'', ''problem'', ''problemas'', ''problems'',
     ''quest'' @ [CHR 0xE3] @ ''o'', ''questao'', ''question'', ''quest'' @ [CHR 0xF5] @ ''es'',
     ''questoes'', ''questions'',
     ''participa'' @ [CHR 0xE7, CHR 0xE3] @ ''o'', ''participacao'', ''participation'',
     ''idade'', ''age'', ''faixa et'' @ [CHR 0xE1] @ ''ria'', ''faixa etaria'', ''age bracket'']"

definition searchVerbs :: "string list" where
  "searchVerbs =
    [''encontre'', ''encontrar'', ''encontra'', ''busque'', ''buscar'', ''busca'',
     ''find'', ''search'', ''procure'', ''procurar'', ''procura'',
     ''mostre'', ''mostrar'', ''mostra'', ''show'', ''exiba'', ''exibir'',
     ''traga'', ''trazer'', ''quem e'', ''quem eh'', ''quem e o'', ''quem eh o'']"

definition commonWords :: "string list" where
  "commonWords =
    [''o'', ''a'', ''os'', ''as'', ''de'', ''do'', ''da'', ''dos'', ''das'', ''em'', ''no'', ''na'',
     ''the'', ''a'', ''an'', ''me'', ''meu'', ''minha'', ''meus'', ''minhas'',
     ''um'', ''uma'', ''uns'', ''umas'', ''que'', ''qual'', ''quais'']"

definition isNameSearchQuery :: "string \<Rightarrow> bool" where
  "isNameSearchQuery query =
     (let qn = normalize_js query in
      if some analysisKeywords (\<lambda>kw. str_includes qn kw) then False
      else
        let hasSearchVerb = some searchVerbs (\<lambda>verb. str_includes qn verb);
            words = filter (\<lambda>w. let normalized = normalize_js w in
                              \<not> arr_includes commonWords normalized
                              \<and> \<not> arr_includes searchVerbs normalized
                              \<and> \<not> some analysisKeywords
                                    (\<lambda>kw. str_includes normalized kw \<or> str_includes kw normalized))
                      (split_ws query)
        in if hasSearchVerb \<and> 1 \<le> length words
           then 1 \<le> length (filter (\<lambda>w. 2 \<le> length w \<and> has_letter w) words)
           else False)"

text \<open>The six tests of \<open>determineFilterType\<close>, in the order of the source.\<close>

definition not_interested_pattern :: "string \<Rightarrow> bool" where
  "not_interested_pattern qn =
     (str_includes qn ''particip'' \<and>
      (str_includes qn ''nao'' \<or> str_includes qn (''n'' @ [CHR 0xE3] @ ''o'')
       \<or> str_includes qn ''not'' \<or> str_includes qn ''sem interesse''
       \<or> str_includes qn ''nao interessados'' \<or> str_includes qn ''nao querem participar''
       \<or> str_includes qn ''nao participaria''
       \<or> str_includes qn (''n'' @ [CHR 0xE3] @ ''o querem participar'')
       \<or> str_includes qn (''n'' @ [CHR 0xE3] @ ''o quer participar'')
       \<or> str_includes qn (''n'' @ [CHR 0xE3] @ ''o participaria'')))"

definition interested_pattern :: "string \<Rightarrow> bool" where
  "interested_pattern qn =
     ((str_includes qn ''particip'' \<or> str_includes qn ''interested''
       \<or> str_includes qn ''interessad'' \<or> str_includes qn ''event'') \<and>
      \<not> (str_includes qn ''nao'' \<or> str_includes qn (''n'' @ [CHR 0xE3] @ ''o'')
         \<or> str_includes qn ''not'' \<or> str_includes qn ''sem interesse''
         \<or> str_includes qn ''nao interessados''))"

definition dissatisfied_pattern :: "string \<Rightarrow> bool" where
  "dissatisfied_pattern qn =
     (str_includes qn ''dissatisfied'' \<or> str_includes qn ''unsatisfied''
      \<or> str_includes qn ''insatisfied'' \<or> str_includes qn ''unhappy''
      \<or> str_includes qn ''insatisf'' \<or> str_includes qn ''insatisfeito''
      \<or> str_includes qn ''insatisfeitos'')"

definition satisfied_pattern :: "string \<Rightarrow> bool" where
  "satisfied_pattern qn =
     ((str_includes qn ''satisfied'' \<or> str_includes qn ''satisfeito''
       \<or> str_includes qn ''satisfeitos'') \<and>
      \<not> (str_includes qn ''dissatisfied'' \<or> str_includes qn ''unsatisfied''
         \<or> str_includes qn ''insatisfied'' \<or> str_includes qn ''unhappy''
         \<or> str_includes qn ''insatisfeito'' \<or> str_includes qn ''insatisfeitos''))"

definition listing_pattern :: "string \<Rightarrow> bool" where
  "listing_pattern qn =
     (str_includes qn ''list'' \<or> str_includes qn ''show'' \<or> str_includes qn ''names''
      \<or> str_includes qn ''listar'' \<or> str_includes qn ''mostre'' \<or> str_includes qn ''mostrar''
      \<or> str_includes qn ''exibir'')"

definition determineFilterType :: "string \<Rightarrow> string option" where
  "determineFilterType query =
     (let qn = normalize_js query in
      if not_interested_pattern qn then Some ''participation_not_interested''
      else if interested_pattern qn then Some ''participation_interested''
      else if isNameSearchQuery query then Some ''name_search''
      else if dissatisfied_pattern qn then Some ''dissatisfied''
      else if satisfied_pattern qn then Some ''satisfied''
      else if listing_pattern qn then Some ''all_with_survey''
      else None)"

section \<open>services/ScopeClassifier.js\<close>

text \<open>
  The reply of the external provider is an input of the model: the HTTP call failed, its
  text did not parse as JSON, or it parsed to an object of which \<open>classify\<close> reads the
  fields below (\<open>None\<close> for a field that is absent or has another type than the one the
  source tests for).
\<close>

record verdict =
  v_in_scope :: "bool option"
  v_inScope :: "bool option"
  v_status :: "string option"
  v_confidence :: "rat option"
  v_score :: "rat option"
  v_categories :: "string list option"
  v_reason :: "string option"
  v_explanation :: "string option"

datatype classifier_reply = CallFailed | Unparsed | Parsed verdict

record classification =
  cl_inScope :: bool
  cl_confidence :: rat
  cl_categories :: "string list"
  cl_reason :: string

text \<open>\<open>/in[-_]?scope/i.test(status)\<close>; without the \<open>u\<close> flag the \<open>i\<close> flag folds ASCII letters only.\<close>

definition ascii_lower :: "char \<Rightarrow> char" where
  "ascii_lower c = (let n = (of_char c :: int) in if 65 \<le> n \<and> n \<le> 90 then char_of (n + 32) else c)"

definition status_in_scope :: "string \<Rightarrow> bool" where
  "status_in_scope status =
     (let t = map ascii_lower status
      in str_includes t ''inscope'' \<or> str_includes t ''in-scope'' \<or> str_includes t ''in_scope'')"

definition scopeTokens :: "string list" where
  "scopeTokens =
    [''satisfacao'', ''satisfa'' @ [CHR 0xE7, CHR 0xE3] @ ''o'', ''engajamento'', ''participacao'',
     ''participa'' @ [CHR 0xE7, CHR 0xE3] @ ''o'', ''bairro'', ''equidade'', ''municip'', ''cidada'',
     ''cidad'' @ [CHR 0xE3], ''cidad'' @ [CHR 0xE3] @ ''o'', ''governanca'',
     ''governan'' @ [CHR 0xE7] @ ''a'', ''resposta'', ''taxa'', ''survey'', ''residente'', ''morador'']"

text \<open>What \<open>classify\<close> computes from a parsed verdict.\<close>

definition verdict_inScope :: "verdict \<Rightarrow> bool" where
  "verdict_inScope parsed =
     (v_in_scope parsed = Some True \<or> v_inScope parsed = Some True
      \<or> status_in_scope (case v_status parsed of None \<Rightarrow> [] | Some s \<Rightarrow> s))"

definition verdict_confidence :: "verdict \<Rightarrow> rat" where
  "verdict_confidence parsed =
     (case v_confidence parsed of
        Some c \<Rightarrow> c
      | None \<Rightarrow> (case v_score parsed of Some c \<Rightarrow> c | None \<Rightarrow> 1 / 2))"

definition verdict_reason :: "verdict \<Rightarrow> string" where
  "verdict_reason parsed =
     (case v_reason parsed of
        Some r \<Rightarrow> if r \<noteq> [] then r
                  else (case v_explanation parsed of
                          Some e \<Rightarrow> if e \<noteq> [] then e else ''No reason provided''
                        | None \<Rightarrow> ''No reason provided'')
      | None \<Rightarrow> (case v_explanation parsed of
                   Some e \<Rightarrow> if e \<noteq> [] then e else ''No reason provided''
                 | None \<Rightarrow> ''No reason provided''))"

definition classify :: "bool \<Rightarrow> (string \<Rightarrow> classifier_reply) \<Rightarrow> string \<Rightarrow> classification" where
  "classify enabled provider query =
     (if \<not> trim_nonempty query
      then \<lparr> cl_inScope = False, cl_confidence = 0, cl_categories = [], cl_reason = ''Empty query'' \<rparr>
      else if \<not> enabled
      then \<lparr> cl_inScope = True, cl_confidence = 1 / 2, cl_categories = [''unknown''],
             cl_reason = ''LLM scope classifier disabled (no API key)'' \<rparr>
      else (case provider query of
              CallFailed \<Rightarrow>
                \<lparr> cl_inScope = True, cl_confidence = 1 / 2, cl_categories = [''error-fallback''],
                  cl_reason = ''Classifier call failed'' \<rparr>
            | Unparsed \<Rightarrow>
                \<lparr> cl_inScope = True, cl_confidence = fl (4 / 10), cl_categories = [''unparsed''],
                  cl_reason = ''Could not parse classifier JSON'' \<rparr>
            | Parsed parsed \<Rightarrow>
                let inScope = verdict_inScope parsed;
                    confidence = verdict_confidence parsed;
                    categories = (case v_categories parsed of None \<Rightarrow> [] | Some cs \<Rightarrow> cs);
                    reason = verdict_reason parsed;
                    ql = toLowerCase query;
                    matches = length (filter (\<lambda>t. str_includes ql t) scopeTokens);
                    flip = (inScope \<and> confidence < fl (65 / 100) \<and> matches = 0)
                in \<lparr> cl_inScope = (if flip then False else inScope),
                     cl_confidence = max 0 (min 1 confidence),
                     cl_categories = categories,
                     cl_reason = (if flip
                                  then ''Low confidence and no municipal domain tokens detected''
                                  else reason) \<rparr>))"

section \<open>services/QueryAnalyzer.js\<close>

record heuristic =
  primaryIntent :: string
  h_queryType :: string
  h_dataNeeds :: "string list"
  h_urgency :: string

text \<open>\<open>if (!xs.includes(x)) xs.push(x)\<close>.\<close>

definition push_new :: "string \<Rightarrow> string list \<Rightarrow> string list" where
  "push_new x xs = (if arr_includes xs x then xs else xs @ [x])"

text \<open>A name-like word: at least two code units, one of them a letter.\<close>

definition nameLike :: "string \<Rightarrow> bool" where
  "nameLike w = (2 \<le> length w \<and> has_letter w)"

definition hNameSearchVerbs :: "string list" where
  "hNameSearchVerbs =
    [''encontre'', ''encontrar'', ''encontra'', ''busque'', ''buscar'', ''busca'', ''find'',
     ''search'', ''procure'', ''procurar'', ''procura'', ''mostre'', ''mostrar'', ''mostra'',
     ''show'', ''exiba'', ''exibir'', ''traga'', ''trazer'', ''quem e'', ''quem eh'']"

definition hCommonWords :: "string list" where
  "hCommonWords =
    [''o'', ''a'', ''os'', ''as'', ''de'', ''do'', ''da'', ''dos'', ''das'', ''em'', ''no'', ''na'',
     ''the'', ''a'', ''an'']"

definition listVerbs :: "string list" where
  "listVerbs =
    [''list'', ''show'', ''names'', ''display'', ''listar'', ''lista'', ''mostre'', ''mostrar'',
     ''exibir'', ''exiba'', ''traga'', ''me mostre'', ''me traga'']"

definition residentNouns :: "string list" where
  "residentNouns =
    [''resident'', ''citizen'', ''residente'', ''morador'', ''moradores'', ''cidadao'',
     ''cidadaos'', ''cidadas'']"

definition satisfiedTokens :: "string list" where
  "satisfiedTokens =
    [''dissatisfied'', ''unsatisfied'', ''insatisfied'', ''unhappy'', ''satisfied'',
     ''insatisfeito'', ''insatisfeitos'', ''insatisfacao'', ''satisfeito'', ''satisfeitos'']"

definition participationTokens :: "string list" where
  "participationTokens =
    [''interested'', ''interessado'', ''interessados'', ''participated'', ''participar'',
     ''participantes'', ''participacao'', ''participaria'']"

definition analyzeQueryHeuristically :: "string \<Rightarrow> heuristic" where
  "analyzeQueryHeuristically query =
     (let qn = normalize_js query;
          has = str_includes qn;
          analysis = \<lparr> primaryIntent = ''knowledge'', h_queryType = ''analysis'',
                       h_dataNeeds = [], h_urgency = ''normal'' \<rparr>;
          hasNameSearchVerb = some hNameSearchVerbs has;
          words = filter (\<lambda>w. let normalized = normalize_js w in
                            \<not> arr_includes hCommonWords normalized
                            \<and> \<not> arr_includes hNameSearchVerbs normalized) (split_ws query);
          nameLikeWords = filter nameLike words
      in if hasNameSearchVerb \<and> 1 \<le> length nameLikeWords
         then analysis \<lparr> primaryIntent := ''knowledge'', h_queryType := ''listing'',
                          h_dataNeeds := [''name_search''] \<rparr>
         else if some listVerbs has
                 \<and> (some residentNouns has \<or> some satisfiedTokens has \<or> some participationTokens has)
         then analysis \<lparr> primaryIntent := ''notification'', h_queryType := ''listing'' \<rparr>
         else if (has ''clicked'' \<or> has ''abandoned'') \<and> (has ''didn'' \<or> has ''not'' \<or> has ''survey'')
         then analysis \<lparr> primaryIntent := ''notification'', h_queryType := ''abandonment'',
                          h_dataNeeds := [''abandonment''] \<rparr>
         else
           let needs1 = (if has ''total'' \<or> has ''quantos'' \<or> has ''quantas'' \<or> has ''cadastros''
                            \<or> has ''registros'' \<or> has ''how many'' \<or> has ''count''
                         then [''total_count''] else []);
               intent1 = (if has ''send'' \<or> has ''message'' \<or> has ''notify'' \<or> has ''contact''
                          then ''notification''
                          else if has ''system'' \<or> has ''health'' \<or> has ''status'' \<or> has ''export''
                          then ''ticket'' else ''knowledge'');
               needs2 = (if has ''dissatisfied'' \<or> has ''insatisf'' \<or> has ''insatisfeito''
                         then needs1 @ [''dissatisfied''] else needs1);
               needs3 = (if (has ''satisfied'' \<or> has ''satisfeito'')
                            \<and> \<not> (has ''dissatisfied'' \<or> has ''insatisfeito'')
                         then needs2 @ [''satisfied''] else needs2);
               needs4 = (if has ''particip'' \<or> has ''interested'' \<or> has ''interessad''
                         then needs3 @ [''participation''] else needs3);
               needs5 = (if has ''neighborhood'' \<or> has ''equity'' \<or> has ''bairro''
                         then needs4 @ [''geographic''] else needs4)
           in analysis \<lparr> primaryIntent := intent1, h_dataNeeds := needs5 \<rparr>)"

text \<open>\<open>intentMap[canonicalIntent] || null\<close>, with \<open>None\<close> for \<open>null\<close>.\<close>

definition mapCanonicalIntent :: "string \<Rightarrow> string property option" where
  "mapCanonicalIntent canonical =
     (if canonical = ''satisfaction'' then Some (Own ''knowledge'')
      else if canonical = ''engagement'' then Some (Own ''notification'')
      else if canonical = ''geographic'' then Some (Own ''knowledge'')
      else if canonical = ''operational'' then Some (Own ''ticket'')
      else if canonical = ''benchmarking'' then Some (Own ''knowledge'')
      else if canonical = ''survey'' then Some (Own ''knowledge'')
      else if arr_includes object_prototype_members canonical then Some Inherited
      else None)"

definition dNameSearchVerbs :: "string list" where
  "dNameSearchVerbs =
    [''encontre'', ''encontrar'', ''encontra'', ''busque'', ''buscar'', ''busca'',
     ''find'', ''search'', ''procure'', ''procurar'', ''procura'',
     ''mostre'', ''mostrar'', ''mostra'', ''show'', ''exiba'', ''exibir'',
     ''traga'', ''trazer'', ''quem e'', ''quem eh'', ''quem '' @ [CHR 0xE9], ''localize'',
     ''localizar'']"

text \<open>\<open>detectNameSearch(query).isNameSearch\<close>.\<close>

definition detectNameSearch :: "string \<Rightarrow> bool" where
  "detectNameSearch query =
     (let qn = normalize_js query in
      if \<not> some dNameSearchVerbs (\<lambda>t. str_includes qn t) then False
      else
        let words = filter (\<lambda>w. let normalized = normalize_js w in
                              \<not> arr_includes commonWords normalized
                              \<and> \<not> arr_includes dNameSearchVerbs normalized) (split_ws query)
        in 1 \<le> length (filter nameLike words))"

text \<open>
  A match of \<open>/pre\s+(p1|p2|\<dots>)/\<close> somewhere in \<open>s\<close>: \<open>pre\<close>, one or more white space,
  then one of the alternatives (none of which starts with white space).
\<close>

definition match_here :: "string \<Rightarrow> string list \<Rightarrow> string \<Rightarrow> bool" where
  "match_here pre alts s =
     (prefix pre s \<and>
      (let r = drop (length pre) s
       in (case r of [] \<Rightarrow> False
           | c # _ \<Rightarrow> is_space c \<and> list_ex (\<lambda>p. prefix p (dropWhile is_space r)) alts)))"

definition regex_seq :: "string \<Rightarrow> string list \<Rightarrow> string \<Rightarrow> bool" where
  "regex_seq pre alts s = list_ex (match_here pre alts) (suffixes s)"

definition statisticalTerms :: "string list" where
  "statisticalTerms =
    [''total'', ''quantos'', ''quantas'', ''how many'', ''how much'', ''count'',
     ''numero'', ''n'' @ [CHR 0xFA] @ ''mero'', ''registros'', ''registro'', ''cadastros'',
     ''cadastro'', ''contagem'', ''estatistica'', ''estat'' @ [CHR 0xED] @ ''stica'', ''dados'',
     ''database'', ''atualmente'', ''atual'', ''currently'', ''hoje'', ''today'']"

definition databaseTerms :: "string list" where
  "databaseTerms =
    [''cadastro'', ''cadastros'', ''registro'', ''registros'', ''contato'', ''contatos'',
     ''contact'', ''contacts'', ''pessoa'', ''pessoas'', ''cidad'', ''citizen'',
     ''resident'', ''residente'', ''morador'', ''moradores'']"

definition isStatisticalOrOperationalQuery :: "string \<Rightarrow> bool" where
  "isStatisticalOrOperationalQuery query =
     (let qn = normalize_js query;
          hasStatisticalTerm = some statisticalTerms (\<lambda>t. str_includes qn t);
          hasDatabaseTerm = some databaseTerms (\<lambda>t. str_includes qn t);
          hasTotalQuery =
            (regex_seq ''total'' [[]] qn
             \<or> regex_seq ''quanto'' [''cadastro'', ''registro'', ''contato'', ''pessoa''] qn
             \<or> regex_seq ''quantos'' [''cadastro'', ''registro'', ''contato'', ''pessoa''] qn
             \<or> regex_seq ''how'' [''many''] qn)
      in (hasStatisticalTerm \<and> hasDatabaseTerm) \<or> hasTotalQuery
         \<or> (hasStatisticalTerm \<and> (str_includes qn ''cadastr'' \<or> str_includes qn ''registr'')))"

definition municipalTokens :: "string list" where
  "municipalTokens =
    [''satisfacao'', ''satisfa'' @ [CHR 0xE7, CHR 0xE3] @ ''o'', ''engajamento'', ''participacao'',
     ''participa'' @ [CHR 0xE7, CHR 0xE3] @ ''o'', ''bairro'', ''equidade'', ''municip'', ''cidada'',
     ''cidad'' @ [CHR 0xE3], ''cidad'' @ [CHR 0xE3] @ ''o'', ''governanca'',
     ''governan'' @ [CHR 0xE7] @ ''a'', ''resposta'', ''taxa'', ''survey'', ''residente'', ''morador'',
     ''cadastro'', ''cadastros'', ''registro'', ''registros'', ''total'', ''quantos'', ''quantas'',
     ''contagem'', ''estatistica'', ''estat'' @ [CHR 0xED] @ ''stica'']"

definition hasMunicipalDomainTokens :: "string \<Rightarrow> bool" where
  "hasMunicipalDomainTokens query =
     (let ql = toLowerCase query in some municipalTokens (\<lambda>t. str_includes ql t))"

definition createDefaultAnalysis :: "string \<Rightarrow> query_analysis" where
  "createDefaultAnalysis why =
     \<lparr> scope = \<lparr> inScope = False, confidence = 0, categories = [], canonicalIntent = None,
                 reason = why \<rparr>,
       intent = ''knowledge'', queryType = ''analysis'', dataNeeds = [], urgency = ''normal'',
       blocked = (why = ''Empty query'') \<rparr>"

definition displayVerbs :: "string list" where
  "displayVerbs =
    [''mostrar'', ''mostre'', ''exibir'', ''exiba'', ''show'', ''display'',
     ''listar'', ''lista'', ''list'', ''trazer'', ''traga'', ''bring'',
     ''apresentar'', ''apresente'', ''present'']"

definition residentFilterKeywords :: "string list" where
  "residentFilterKeywords =
    [''insatisfeito'', ''insatisfeitos'', ''dissatisfied'', ''unsatisfied'',
     ''nao querem participar'', ''nao quer participar'', ''not interested'',
     ''nao interessados'', ''nao interessado'', ''sem interesse'',
     ''satisfeito'', ''satisfeitos'', ''satisfied'',
     ''interessado'', ''interessados'', ''interested'', ''querem participar'']"

definition filterVerbs :: "string list" where
  "filterVerbs =
    [''encontrar'', ''encontre'', ''encontra'', ''find'', ''buscar'', ''busque'',
     ''listar'', ''lista'', ''list'', ''mostrar'', ''mostre'', ''show'',
     ''exibir'', ''exiba'', ''display'', ''trazer'', ''traga'']"

text \<open>
  \<open>analyzeQuery\<close>: the pre-checks in the order of the source, then the external
  classification. \<open>classify\<close> returns no \<open>canonical_intent\<close>, so the remapping of step 3
  (\<open>scope.inScope && scope.canonical_intent\<close>) never applies and the final
  \<open>canonicalIntent\<close> is \<open>null\<close>.
\<close>

definition analyzeQuery :: "bool \<Rightarrow> (string \<Rightarrow> classifier_reply) \<Rightarrow> string \<Rightarrow> query_analysis" where
  "analyzeQuery enabled provider query =
     (if \<not> trim_nonempty query then createDefaultAnalysis ''Empty query''
      else if isStatisticalOrOperationalQuery query
      then (let h = analyzeQueryHeuristically query;
                h = (if primaryIntent h = [] then h \<lparr> primaryIntent := ''knowledge'',
                                                       h_queryType := ''analysis'' \<rparr> else h)
            in \<lparr> scope = \<lparr> inScope = True, confidence = fl (9 / 10), categories = [''operational''],
                            canonicalIntent = Some ''operational'',
                            reason = ''Statistical/operational query about municipal database'' \<rparr>,
                  intent = primaryIntent h, queryType = h_queryType h, dataNeeds = h_dataNeeds h,
                  urgency = h_urgency h, blocked = False \<rparr>)
      else
        let qn = normalize_js query;
            has = str_includes qn;
            hasAnalysisKeyword = some (map normalize_js analysisKeywords) has;
            hasDisplayVerb = some (map normalize_js displayVerbs) has
        in
        if hasAnalysisKeyword \<and> hasDisplayVerb
        then (let h = analyzeQueryHeuristically query;
                  needs = remove1 ''name_search'' (h_dataNeeds h);
                  needs = (if has ''satisf'' \<or> has (''satisfa'' @ [CHR 0xE7, CHR 0xE3] @ ''o'')
                              \<or> has ''satisfaction''
                           then push_new ''satisfaction_analysis'' needs else needs);
                  needs = (if has ''bairro'' \<or> has ''neighborhood''
                           then push_new ''geographic'' needs else needs);
                  needs = (if has ''idade'' \<or> has ''age'' \<or> has ''faixa''
                           then push_new ''age_analysis'' needs else needs)
              in \<lparr> scope = \<lparr> inScope = True, confidence = fl (95 / 100),
                              categories = [''survey'', ''analysis''],
                              canonicalIntent = Some ''satisfaction'',
                              reason = ''Analysis/report query detected - requesting data analysis, not name search'' \<rparr>,
                    intent = ''knowledge'', queryType = ''analysis'', dataNeeds = needs,
                    urgency = ''normal'', blocked = False \<rparr>)
        else if hasAnalysisKeyword \<and> (has ''de'' \<or> has ''do'' \<or> has ''da'')
        then (let h = analyzeQueryHeuristically query
              in \<lparr> scope = \<lparr> inScope = True, confidence = fl (9 / 10),
                              categories = [''survey'', ''analysis''],
                              canonicalIntent = Some ''satisfaction'',
                              reason = ''Analysis query pattern detected (analysis keyword + preposition)'' \<rparr>,
                    intent = ''knowledge'', queryType = ''analysis'', dataNeeds = h_dataNeeds h,
                    urgency = ''normal'', blocked = False \<rparr>)
        else
        let hasFilterKeyword = some residentFilterKeywords has;
            hasFilterVerb = some filterVerbs has;
            hasResidentNoun = (has ''morador'' \<or> has ''moradores'' \<or> has ''resident''
                               \<or> has ''residents'' \<or> has ''cidadao'' \<or> has ''cidadaos''
                               \<or> has ''cidadas'')
        in
        if hasFilterKeyword \<and> (hasFilterVerb \<or> hasResidentNoun)
        then (let h = analyzeQueryHeuristically query;
                  h = h \<lparr> h_dataNeeds := remove1 ''name_search'' (h_dataNeeds h) \<rparr>;
                  h = (if has ''insatisf'' \<or> has ''dissatisfied''
                       then (if hasFilterVerb
                                \<and> (has ''listar'' \<or> has ''mostrar'' \<or> has ''list'' \<or> has ''show'')
                             then h \<lparr> primaryIntent := ''notification'', h_queryType := ''listing'',
                                     h_dataNeeds := push_new ''dissatisfied'' (h_dataNeeds h) \<rparr>
                             else h \<lparr> primaryIntent := ''knowledge'', h_queryType := ''analysis'',
                                     h_dataNeeds := push_new ''dissatisfied'' (h_dataNeeds h) \<rparr>)
                       else if has ''particip'' \<or> has ''interessad''
                       then h \<lparr> primaryIntent := ''notification'', h_queryType := ''listing'',
                               h_dataNeeds :=
                                 (if has ''nao'' \<or> has ''not'' \<or> has ''sem interesse''
                                  then push_new ''participation_not_interested'' (h_dataNeeds h)
                                  else push_new ''participation_interested'' (h_dataNeeds h)) \<rparr>
                       else h)
              in \<lparr> scope = \<lparr> inScope = True, confidence = fl (95 / 100),
                              categories = [''survey'', ''engagement''],
                              canonicalIntent = Some ''survey'',
                              reason = ''Resident filter query detected - requesting filtered resident list, not name search'' \<rparr>,
                    intent = primaryIntent h, queryType = h_queryType h, dataNeeds = h_dataNeeds h,
                    urgency = h_urgency h, blocked = False \<rparr>)
        else if detectNameSearch query
        then (let h = analyzeQueryHeuristically query;
                  h = (if primaryIntent h = [] \<or> primaryIntent h \<noteq> ''knowledge''
                       then h \<lparr> primaryIntent := ''knowledge'' \<rparr> else h);
                  h = h \<lparr> h_dataNeeds := push_new ''name_search'' (h_dataNeeds h) \<rparr>
              in \<lparr> scope = \<lparr> inScope = True, confidence = fl (95 / 100),
                              categories = [''survey'', ''engagement''],
                              canonicalIntent = Some ''survey'',
                              reason = ''Name/resident search query - core municipal intelligence capability'' \<rparr>,
                    intent = primaryIntent h,
                    queryType = (if h_queryType h = [] then ''listing'' else h_queryType h),
                    dataNeeds = h_dataNeeds h, urgency = h_urgency h, blocked = False \<rparr>)
        else
        let sc = classify enabled provider query;
            h = analyzeQueryHeuristically query
        in
        if \<not> cl_inScope sc
        then (if isStatisticalOrOperationalQuery query
              then \<lparr> scope = \<lparr> inScope = True, confidence = fl (85 / 100),
                               categories = [''operational'', ''survey''],
                               canonicalIntent = Some ''operational'',
                               reason = ''Statistical query about municipal database (heuristic override)'' \<rparr>,
                     intent = (if primaryIntent h = [] then ''knowledge'' else primaryIntent h),
                     queryType = (if h_queryType h = [] then ''analysis'' else h_queryType h),
                     dataNeeds = h_dataNeeds h, urgency = h_urgency h, blocked = False \<rparr>
              else if detectNameSearch query
              then \<lparr> scope = \<lparr> inScope = True, confidence = fl (9 / 10),
                               categories = [''survey'', ''engagement''],
                               canonicalIntent = Some ''survey'',
                               reason = ''Name/resident search query (heuristic override)'' \<rparr>,
                     intent = ''knowledge'',
                     queryType = (if h_queryType h = [] then ''listing'' else h_queryType h),
                     dataNeeds = push_new ''name_search'' (h_dataNeeds h),
                     urgency = h_urgency h, blocked = False \<rparr>
              else \<lparr> scope = \<lparr> inScope = False, confidence = cl_confidence sc, categories = [],
                               canonicalIntent = None, reason = cl_reason sc \<rparr>,
                     intent = ''out_of_scope'', queryType = ''blocked'', dataNeeds = [],
                     urgency = ''normal'', blocked = True \<rparr>)
        else if cl_confidence sc < fl (65 / 100) \<and> \<not> hasMunicipalDomainTokens query
        then \<lparr> scope = \<lparr> inScope = False, confidence = cl_confidence sc, categories = [],
                         canonicalIntent = None,
                         reason = ''Low-confidence classification and no municipal domain tokens detected'' \<rparr>,
               intent = ''out_of_scope'', queryType = ''blocked'', dataNeeds = [],
               urgency = ''normal'', blocked = True \<rparr>
        else \<lparr> scope = \<lparr> inScope = True, confidence = cl_confidence sc,
                         categories = cl_categories sc, canonicalIntent = None,
                         reason = cl_reason sc \<rparr>,
               intent = primaryIntent h, queryType = h_queryType h, dataNeeds = h_dataNeeds h,
               urgency = h_urgency h, blocked = False \<rparr>)"

section \<open>services/MunicipalAnalysisEngine.js\<close>

subsection \<open>Satisfaction\<close>

text \<open>
  \<open>getSatisfactionRawData()\<close> belongs to the data access layer and is an input here: the
  number of responses and the breakdown object, as the list of its entries.
\<close>

record sat_raw =
  sr_total :: nat
  sr_breakdown :: "(string \<times> nat) list"

record dissatisfaction =
  dissatisfiedCount :: nat
  dissatisfiedPercent :: rat
  dissatisfactionTier :: string

text \<open>
  A score is a double or \<open>NaN\<close>. The doubles of this analysis are finite, so \<open>NaN\<close> is the
  only value outside the rationals that it can produce.
\<close>

datatype js_number = NaN | Number rat

record sat_report =
  st_total :: nat
  averageScore :: js_number
  maxScore :: nat
  st_breakdown :: "(string \<times> nat) list"
  analysisQuality :: string
  st_dissatisfaction :: "dissatisfaction option"
  satisfactionTrend :: "string option"

text \<open>The object literal \<open>weights\<close>, read as \<open>weights[level]\<close>.\<close>

definition weights :: "string \<Rightarrow> nat property option" where
  "weights lvl =
     (if lvl = ''Muito satisfeito'' then Some (Own 5)
      else if lvl = ''Satisfeito'' then Some (Own 4)
      else if lvl = ''Neutro'' then Some (Own 3)
      else if lvl = ''Insatisfeito'' then Some (Own 2)
      else if lvl = ''Muito insatisfeito'' then Some (Own 1)
      else if arr_includes object_prototype_members lvl then Some Inherited
      else None)"

text \<open>
  \<open>weights[level] || 3\<close>: \<open>undefined\<close> and 0 are falsy and give 3; a function or an object
  is truthy and is kept.
\<close>

definition weight :: "string \<Rightarrow> nat property" where
  "weight lvl =
     (case weights lvl of
        None \<Rightarrow> Own 3
      | Some (Own w) \<Rightarrow> if w = 0 then Own 3 else Own w
      | Some Inherited \<Rightarrow> Inherited)"

text \<open>
  \<open>totalScore += weight * count\<close>. With a number for every weight the sum is a natural
  number; a weight that is a function or an object makes the product \<open>NaN\<close>, and the sum
  stays \<open>NaN\<close> from there on: that is \<open>None\<close>.
\<close>

definition totalScore :: "(string \<times> nat) list \<Rightarrow> nat option" where
  "totalScore bd =
     foldl (\<lambda>acc (lvl, n).
              case acc of
                None \<Rightarrow> None
              | Some s \<Rightarrow> (case weight lvl of
                            Own w \<Rightarrow> Some (s + w * n)
                          | Inherited \<Rightarrow> None))
       (Some 0) bd"

definition totalResponses :: "(string \<times> nat) list \<Rightarrow> nat" where
  "totalResponses bd = foldl (\<lambda>acc (lvl, n). acc + n) 0 bd"

text \<open>\<open>totalResponses > 0 ? (totalScore / totalResponses) : 0\<close>.\<close>

definition averageScoreNumeric :: "(string \<times> nat) list \<Rightarrow> js_number" where
  "averageScoreNumeric bd =
     (if 0 < totalResponses bd
      then (case totalScore bd of
              None \<Rightarrow> NaN
            | Some s \<Rightarrow> Number (fdiv (of_nat s) (of_nat (totalResponses bd))))
      else Number 0)"

definition calculateDissatisfactionStats :: "(string \<times> nat) list \<Rightarrow> dissatisfaction" where
  "calculateDissatisfactionStats bd =
     (let tot = foldl (\<lambda>acc (lvl, n). acc + n) 0 bd;
          dissCount = foldl (\<lambda>acc (lvl, n).
                        if lvl = ''Muito insatisfeito'' \<or> lvl = ''Insatisfeito'' then acc + n
                        else acc) 0 bd;
          percent = (if 0 < tot then fmul (fdiv (of_nat dissCount) (of_nat tot)) 100 else 0);
          tier = (if 40 \<le> percent then ''critical''
                  else if 25 \<le> percent then ''elevated'' else ''low'')
      in \<lparr> dissatisfiedCount = dissCount, dissatisfiedPercent = percent,
           dissatisfactionTier = tier \<rparr>)"

text \<open>The \<open>quality\<close> that \<open>generateSatisfactionInsights\<close> derives from the sample size.\<close>

definition satisfactionQuality :: "nat \<Rightarrow> string" where
  "satisfactionQuality n =
     (if n < 30 then ''limited'' else if 100 \<le> n then ''excellent'' else ''good'')"

text \<open>Every comparison with \<open>NaN\<close> is false.\<close>

definition assessSatisfactionTrend :: "js_number \<Rightarrow> string" where
  "assessSatisfactionTrend avg =
     (case avg of
        NaN \<Rightarrow> ''concerning''
      | Number score \<Rightarrow>
          if 4 \<le> score then ''positive'' else if 3 \<le> score then ''neutral'' else ''concerning'')"

text \<open>\<open>Number(x.toFixed(2))\<close>; \<open>NaN.toFixed(2)\<close> is the string \<open>NaN\<close>.\<close>

definition rounded2 :: "js_number \<Rightarrow> js_number" where
  "rounded2 x = (case x of NaN \<Rightarrow> NaN | Number r \<Rightarrow> Number (fl (toFixed 2 r)))"

text \<open>
  \<open>analyzeSatisfaction\<close>, without the texts of the insights and recommendations and the
  percentage strings of the breakdown.
\<close>

definition analyzeSatisfaction :: "sat_raw \<Rightarrow> sat_report" where
  "analyzeSatisfaction rawData =
     (if sr_total rawData = 0
      then \<lparr> st_total = 0, averageScore = Number 0, maxScore = 5, st_breakdown = [],
             analysisQuality = ''insufficient_data'', st_dissatisfaction = None,
             satisfactionTrend = None \<rparr>
      else \<lparr> st_total = sr_total rawData,
             averageScore = rounded2 (averageScoreNumeric (sr_breakdown rawData)),
             maxScore = 5,
             st_breakdown = sr_breakdown rawData,
             analysisQuality = satisfactionQuality (sr_total rawData),
             st_dissatisfaction = Some (calculateDissatisfactionStats (sr_breakdown rawData)),
             satisfactionTrend =
               Some (assessSatisfactionTrend (averageScoreNumeric (sr_breakdown rawData))) \<rparr>)"

subsection \<open>Neighborhoods\<close>

text \<open>
  \<open>getNeighborhoodRawData()\<close> is an input: the entries of the object, one per
  neighborhood, each with its four counts.
\<close>

record nb_stats =
  ns_total :: nat
  ns_sent :: nat
  ns_clicked :: nat
  ns_answered :: nat

record nb_row =
  nb_name :: string
  nb_total :: nat
  nb_sent :: nat
  nb_clicked :: nat
  nb_answered :: nat
  responseRate :: rat
  engagementRate :: rat

record nb_report =
  neighborhoods :: "nb_row list"
  equityAssessment :: string
  totalNeighborhoods :: nat
  bestPerforming :: "(string \<times> rat) option"
  needsAttention :: "(string \<times> rat) list"
  meta_avgResponseRate :: rat
  meta_attentionCutoff :: rat

definition neighborhoodsRaw :: "(string \<times> nb_stats) list \<Rightarrow> nb_row list" where
  "neighborhoodsRaw rawData =
     map (\<lambda>(nm, stats).
           \<lparr> nb_name = nm, nb_total = ns_total stats, nb_sent = ns_sent stats,
             nb_clicked = ns_clicked stats, nb_answered = ns_answered stats,
             responseRate = (if 0 < ns_total stats
                             then fmul (fdiv (of_nat (ns_answered stats)) (of_nat (ns_total stats))) 100
                             else 0),
             engagementRate = (if 0 < ns_sent stats
                               then fmul (fdiv (of_nat (ns_clicked stats)) (of_nat (ns_sent stats))) 100
                               else 0) \<rparr>) rawData"

text \<open>\<open>[...rows].sort((a, b) => b.responseRate - a.responseRate)\<close>: stable, descending.\<close>

definition byResponse :: "nb_row list \<Rightarrow> nb_row list" where
  "byResponse rows = sort_key (\<lambda>n. - responseRate n) rows"

text \<open>\<open>rows.reduce((s, n) => s + n.responseRate, 0) / rows.length\<close>, or 0 for no rows.\<close>

definition avgResponse :: "nb_row list \<Rightarrow> rat" where
  "avgResponse rows =
     (if rows = [] then 0
      else fdiv (foldl (\<lambda>s n. fadd s (responseRate n)) 0 rows) (of_nat (length rows)))"

definition attentionCutoff :: "nb_row list \<Rightarrow> rat" where
  "attentionCutoff rows = max 0 (fsub (avgResponse rows) 10)"

text \<open>The neighborhoods that \<open>generateNeighborhoodInsights\<close> counts as low performing.\<close>

definition lowPerforming :: "nb_row list \<Rightarrow> nb_row list" where
  "lowPerforming ranked = filter (\<lambda>n. responseRate n < fsub (avgResponse ranked) 10) ranked"

text \<open>The \<open>equityAssessment\<close> of \<open>generateNeighborhoodInsights\<close>.\<close>

definition generateNeighborhoodInsights :: "nb_row list \<Rightarrow> string" where
  "generateNeighborhoodInsights ranked =
     (if length ranked = 0 then ''unknown''
      else if 0 < length (lowPerforming ranked)
      then (if fmul (of_nat (length ranked)) (fl (4 / 10)) < of_nat (length (lowPerforming ranked))
            then ''concern'' else ''moderate'')
      else ''excellent'')"

definition analyzeNeighborhoods :: "(string \<times> nb_stats) list \<Rightarrow> nb_report" where
  "analyzeNeighborhoods rawData =
     (let rows = neighborhoodsRaw rawData;
          ranked = byResponse rows;
          cutoff = attentionCutoff ranked
      in \<lparr> neighborhoods =
             sort_key (\<lambda>n. - int (nb_total n))
               (map (\<lambda>n. n \<lparr> responseRate := toFixed 1 (responseRate n),
                              engagementRate := toFixed 1 (engagementRate n) \<rparr>) rows),
           equityAssessment = generateNeighborhoodInsights ranked,
           totalNeighborhoods = length rows,
           bestPerforming = (case ranked of [] \<Rightarrow> None
                             | n # _ \<Rightarrow> Some (nb_name n, toFixed 1 (responseRate n))),
           needsAttention =
             map (\<lambda>n. (nb_name n, toFixed 1 (responseRate n)))
               (filter (\<lambda>n. responseRate n < cutoff) rows),
           meta_avgResponseRate = toFixed 1 (avgResponse ranked),
           meta_attentionCutoff = toFixed 1 cutoff \<rparr>)"

section \<open>orchestrator.js: the pipeline\<close>

text \<open>
  The collaborators of \<open>orchestrate\<close> that are not part of this development (the context
  builder, the three agents and the LLM enhancement request) are parameters. Each returns
  its result, or the error it throws, together with the components it invoked in turn, so
  that the pipeline can be followed by the list of components it has run. The API key is
  read from the same environment variable by the orchestrator and by the scope classifier.
\<close>

datatype component =
  ContextBuilder | RoutedAgent string | AnalysisEngine | ResidentFilter | LLMEnhancement

record 'ctx services =
  hasValidApiKey :: bool
  scopeProvider :: "string \<Rightarrow> classifier_reply"
  generateIntelligentContext :: "query_analysis \<Rightarrow> component list \<times> (js_error + 'ctx)"
  notificationAgent ::
    "string \<Rightarrow> query_analysis \<Rightarrow> 'ctx \<Rightarrow> component list \<times> (js_error + agent_result)"
  knowledgeAgent ::
    "string \<Rightarrow> query_analysis \<Rightarrow> 'ctx \<Rightarrow> component list \<times> (js_error + agent_result)"
  ticketAgent ::
    "string \<Rightarrow> query_analysis \<Rightarrow> 'ctx \<Rightarrow> component list \<times> (js_error + agent_result)"
  enhanceWithLLM ::
    "string \<Rightarrow> query_analysis \<Rightarrow> 'ctx \<Rightarrow> agent_result \<Rightarrow> component list \<times> (js_error + llm_result)"

record blocked_response =
  br_query :: string
  br_intent :: string
  br_response :: string
  br_success :: bool
  br_scope :: scope_info
  br_residents :: "resident list"

record error_response =
  er_query :: string
  er_error :: js_error
  er_residents :: "resident list"
  er_success :: bool

datatype orch_result = Blocked blocked_response | Final final_response | Failed error_response

definition out_of_scope_message :: string where
  "out_of_scope_message =
     ''Consulta fora do escopo da Intelig'' @ [CHR 0xEA] @ ''ncia Municipal. Reformule dentro de: satisfa''
     @ [CHR 0xE7, CHR 0xE3] @ ''o cidad'' @ [CHR 0xE3] @ '', engajamento, equidade geogr'' @ [CHR 0xE1]
     @ ''fica, desempenho operacional, benchmarking ou an'' @ [CHR 0xE1] @ ''lise de pesquisa.''"

definition createErrorResponse :: "string \<Rightarrow> js_error \<Rightarrow> error_response" where
  "createErrorResponse query e =
     \<lparr> er_query = query, er_error = e, er_residents = [], er_success = False \<rparr>"

definition routeToAgent ::
  "'ctx services \<Rightarrow> string \<Rightarrow> query_analysis \<Rightarrow> 'ctx \<Rightarrow> component list \<times> (js_error + agent_result)" where
  "routeToAgent sv query queryAnalysis ctx =
     (if intent queryAnalysis = ''notification''
      then (case notificationAgent sv query queryAnalysis ctx of
              (t, r) \<Rightarrow> (RoutedAgent ''notification'' # t, r))
      else if intent queryAnalysis = ''knowledge''
      then (case knowledgeAgent sv query queryAnalysis ctx of
              (t, r) \<Rightarrow> (RoutedAgent ''knowledge'' # t, r))
      else if intent queryAnalysis = ''ticket''
      then (case ticketAgent sv query queryAnalysis ctx of
              (t, r) \<Rightarrow> (RoutedAgent ''ticket'' # t, r))
      else (case knowledgeAgent sv query queryAnalysis ctx of
              (t, r) \<Rightarrow> (RoutedAgent ''knowledge'' # t, r)))"

text \<open>
  \<open>orchestrate\<close>: the result and the components run, in order. An error of the context
  builder, of the agent or of \<open>constructFinalResponse\<close> reaches the outer \<open>catch\<close>; an
  error of the enhancement is caught where it is called and leaves \<open>llmResult\<close> null.
\<close>

definition orchestrate :: "'ctx services \<Rightarrow> string \<Rightarrow> component list \<times> orch_result" where
  "orchestrate sv query =
     (let queryAnalysis = analyzeQuery (hasValidApiKey sv) (scopeProvider sv) query in
      if blocked queryAnalysis
      then ([], Blocked \<lparr> br_query = query, br_intent = ''out_of_scope'',
                          br_response = out_of_scope_message, br_success = True,
                          br_scope = scope queryAnalysis, br_residents = [] \<rparr>)
      else
        (case generateIntelligentContext sv queryAnalysis of
           (t1, Inl e) \<Rightarrow> (ContextBuilder # t1, Failed (createErrorResponse query e))
         | (t1, Inr ctx) \<Rightarrow>
            (case routeToAgent sv query queryAnalysis ctx of
               (t2, Inl e) \<Rightarrow> (ContextBuilder # t1 @ t2, Failed (createErrorResponse query e))
             | (t2, Inr agentResult) \<Rightarrow>
                (case (if hasValidApiKey sv \<and> intent queryAnalysis \<noteq> ''ticket''
                       then (case enhanceWithLLM sv query queryAnalysis ctx agentResult of
                               (t, Inl e) \<Rightarrow> (LLMEnhancement # t, None)
                             | (t, Inr l) \<Rightarrow> (LLMEnhancement # t, Some l))
                       else ([], None)) of
                   (t3, llmResult) \<Rightarrow>
                     (case constructFinalResponse query queryAnalysis agentResult llmResult of
                        Inl e \<Rightarrow> (ContextBuilder # t1 @ t2 @ t3,
                                  Failed (createErrorResponse query e))
                      | Inr r \<Rightarrow> (ContextBuilder # t1 @ t2 @ t3, Final r))))))"

section \<open>Notions of the specification\<close>

text \<open>
  Grounding as the specification words it: the text contains the literal name of at least
  one resident of the deterministic candidate's resident list.
\<close>

definition spec_grounded :: "agent_result \<Rightarrow> string \<Rightarrow> bool" where
  "spec_grounded agentResult text =
     (\<exists>rs. analysis_field residents agentResult = Some rs
           \<and> (\<exists>r \<in> set rs. \<exists>u v. text = u @ name r @ v))"

text \<open>
  The queries that \<open>analyzeQuery\<close> hands to the external classifier: not empty, and none of
  the pre-checks (statistical query, analysis keyword with a display verb or a preposition,
  resident segment filter, name search) applies.
\<close>

definition reaches_classifier :: "string \<Rightarrow> bool" where
  "reaches_classifier query =
     (let qn = normalize_js query;
          has = str_includes qn;
          hasAnalysisKeyword = some (map normalize_js analysisKeywords) has;
          hasDisplayVerb = some (map normalize_js displayVerbs) has;
          hasFilterKeyword = some residentFilterKeywords has;
          hasFilterVerb = some filterVerbs has;
          hasResidentNoun = (has ''morador'' \<or> has ''moradores'' \<or> has ''resident''
                             \<or> has ''residents'' \<or> has ''cidadao'' \<or> has ''cidadaos''
                             \<or> has ''cidadas'')
      in trim_nonempty query
         \<and> \<not> isStatisticalOrOperationalQuery query
         \<and> \<not> (hasAnalysisKeyword \<and> hasDisplayVerb)
         \<and> \<not> (hasAnalysisKeyword \<and> (has ''de'' \<or> has ''do'' \<or> has ''da''))
         \<and> \<not> (hasFilterKeyword \<and> (hasFilterVerb \<or> hasResidentNoun))
         \<and> \<not> detectNameSearch query)"

text \<open>
  The sums behind the satisfaction figures: the number of responses in a breakdown, their
  weighted sum with the fixed weight map (3 for a label outside it), and the number of
  dissatisfied responses (the two lowest labels).
\<close>

definition spec_weight :: "string \<Rightarrow> nat" where
  "spec_weight lvl =
     (if lvl = ''Muito satisfeito'' then 5
      else if lvl = ''Satisfeito'' then 4
      else if lvl = ''Neutro'' then 3
      else if lvl = ''Insatisfeito'' then 2
      else if lvl = ''Muito insatisfeito'' then 1
      else 3)"

definition spec_responses :: "(string \<times> nat) list \<Rightarrow> nat" where
  "spec_responses bd = sum_list (map snd bd)"

definition spec_weighted :: "(string \<times> nat) list \<Rightarrow> nat" where
  "spec_weighted bd = sum_list (map (\<lambda>(lvl, n). spec_weight lvl * n) bd)"

definition spec_dissatisfied :: "(string \<times> nat) list \<Rightarrow> nat" where
  "spec_dissatisfied bd =
     sum_list (map snd (filter (\<lambda>(lvl, n). lvl = ''Muito insatisfeito'' \<or> lvl = ''Insatisfeito'') bd))"

text \<open>The two data sets of the specification's examples.\<close>

definition example_satisfaction :: sat_raw where
  "example_satisfaction =
     \<lparr> sr_total = 40,
       sr_breakdown = [(''Muito satisfeito'', 10), (''Satisfeito'', 20), (''Neutro'', 5),
                       (''Insatisfeito'', 3), (''Muito insatisfeito'', 2)] \<rparr>"

definition example_neighborhoods :: "(string \<times> nb_stats) list" where
  "example_neighborhoods =
     [(''A'', \<lparr> ns_total = 10, ns_sent = 10, ns_clicked = 5, ns_answered = 9 \<rparr>),
      (''B'', \<lparr> ns_total = 20, ns_sent = 20, ns_clicked = 10, ns_answered = 17 \<rparr>),
      (''C'', \<lparr> ns_total = 5, ns_sent = 5, ns_clicked = 2, ns_answered = 2 \<rparr>),
      (''D'', \<lparr> ns_total = 50, ns_sent = 50, ns_clicked = 25, ns_answered = 19 \<rparr>)]"

section \<open>Properties\<close>

subsection \<open>Strings\<close>

lemma str_includes_iff: "str_includes s t \<longleftrightarrow> (\<exists>u v. s = u @ t @ v)"
proof (induction s)
  case Nil
  then show ?case by simp
next
  case (Cons c s)
  show ?case
  proof
    assume "str_includes (c # s) t"
    then consider "prefix t (c # s)" | "str_includes s t" by auto
    then show "\<exists>u v. c # s = u @ t @ v"
    proof cases
      case 1
      then obtain v where "c # s = t @ v" by (auto simp: prefix_def)
      then have "c # s = [] @ t @ v" by simp
      then show ?thesis by blast
    next
      case 2
      with Cons.IH obtain u v where "s = u @ t @ v" by blast
      then have "c # s = (c # u) @ t @ v" by simp
      then show ?thesis by blast
    qed
  next
    assume "\<exists>u v. c # s = u @ t @ v"
    then obtain u v where uv: "c # s = u @ t @ v" by blast
    show "str_includes (c # s) t"
    proof (cases u)
      case Nil
      with uv have "prefix t (c # s)" by (simp add: prefix_def)
      then show ?thesis by simp
    next
      case (Cons d u')
      with uv have "s = u' @ t @ v" by simp
      with Cons.IH have "str_includes s t" by blast
      then show ?thesis by simp
    qed
  qed
qed

lemma hasRealData_iff: "hasRealData agentResult text \<longleftrightarrow> spec_grounded agentResult text"
  by (auto simp: hasRealData_def spec_grounded_def some_def list_ex_iff str_includes_iff
      split: option.splits)

subsection \<open>Confidence\<close>

lemma fl_literals_chain:
  "fl (7 / 10) \<le> fl (75 / 100)" "fl (75 / 100) \<le> 7205759403792793 / 9007199254740992"
  "(7205759403792793 / 9007199254740992 :: rat) \<le> fl (85 / 100)"
  "fl (85 / 100) \<le> fl (9 / 10)" "fl (9 / 10) \<le> fl (95 / 100)" "fl (95 / 100) \<le> 95 / 100"
  by code_simp+

lemma confidence_sums:
  "fadd (fl (7 / 10)) (fl (15 / 100)) = fl (85 / 100)"
  "fadd (fl (85 / 100)) (fl (1 / 10)) = fl (95 / 100)"
  "fadd (fl (85 / 100)) (fl (5 / 100)) = fl (9 / 10)"
  "fadd (fl (7 / 10)) (fl (1 / 10)) = 7205759403792793 / 9007199254740992"
  "fadd (fl (7 / 10)) (fl (5 / 100)) = fl (75 / 100)"
  "fadd (fl (7 / 10)) 0 = fl (7 / 10)"
  "fadd (fl (85 / 100)) 0 = fl (85 / 100)"
  by code_simp+

lemma confidence_mins:
  "min (fl (95 / 100)) (fl (95 / 100)) = fl (95 / 100)"
  "min (fl (9 / 10)) (fl (95 / 100)) = fl (9 / 10)"
  "min (fl (85 / 100)) (fl (95 / 100)) = fl (85 / 100)"
  "min (7205759403792793 / 9007199254740992) (fl (95 / 100)) = 7205759403792793 / 9007199254740992"
  "min (fl (75 / 100)) (fl (95 / 100)) = fl (75 / 100)"
  "min (fl (7 / 10)) (fl (95 / 100)) = fl (7 / 10)"
  by code_simp+

text \<open>
  The six values of \<open>calculateConfidence\<close>. Five are the doubles nearest to 0.95, 0.9, 0.85,
  0.75 and 0.7; the sum \<open>0.7 + 0.1\<close> is the double just below 0.8.
\<close>

lemma calculateConfidence_cases:
  "calculateConfidence a l =
     (if has_residents a
      then (if quality_level l = Some ''excellent'' then fl (95 / 100)
            else if quality_level l = Some ''good'' then fl (9 / 10) else fl (85 / 100))
      else (if quality_level l = Some ''excellent'' then 7205759403792793 / 9007199254740992
            else if quality_level l = Some ''good'' then fl (75 / 100) else fl (7 / 10)))"
proof -
  have ne: "(Some ''good'' = Some ''excellent'') = False" by simp
  consider (e) "quality_level l = Some ''excellent''" | (g) "quality_level l = Some ''good''"
    | (o) "quality_level l \<noteq> Some ''excellent''" "quality_level l \<noteq> Some ''good''" by blast
  then show ?thesis
  proof cases
    case e
    show ?thesis unfolding calculateConfidence_def Let_def
      by (cases "has_residents a")
        (simp_all only: e confidence_sums confidence_mins if_True if_False simp_thms)
  next
    case g
    show ?thesis unfolding calculateConfidence_def Let_def
      by (cases "has_residents a")
        (simp_all only: g ne confidence_sums confidence_mins if_True if_False simp_thms)
  next
    case o
    show ?thesis unfolding calculateConfidence_def Let_def
      by (cases "has_residents a")
        (simp_all only: o confidence_sums confidence_mins if_True if_False simp_thms)
  qed
qed

lemma calculateConfidence_formula:
  "calculateConfidence a l =
     min (fl (95 / 100))
       (fadd (fadd (fl (7 / 10)) (if has_residents a then fl (15 / 100) else 0))
          (if quality_level l = Some ''excellent'' then fl (1 / 10)
           else if quality_level l = Some ''good'' then fl (5 / 100) else 0))"
proof -
  have ne: "(Some ''good'' = Some ''excellent'') = False" by simp
  have "calculateConfidence a l =
     min (fadd (fadd (fl (7 / 10)) (if has_residents a then fl (15 / 100) else 0))
          (if quality_level l = Some ''excellent'' then fl (1 / 10)
           else if quality_level l = Some ''good'' then fl (5 / 100) else 0)) (fl (95 / 100))"
  proof -
    consider (e) "quality_level l = Some ''excellent''" | (g) "quality_level l = Some ''good''"
      | (o) "quality_level l \<noteq> Some ''excellent''" "quality_level l \<noteq> Some ''good''" by blast
    then show ?thesis
    proof cases
      case e
      show ?thesis unfolding calculateConfidence_cases
        by (cases "has_residents a")
          (simp_all only: e confidence_sums confidence_mins if_True if_False simp_thms)
    next
      case g
      show ?thesis unfolding calculateConfidence_cases
        by (cases "has_residents a")
          (simp_all only: g ne confidence_sums confidence_mins if_True if_False simp_thms)
    next
      case o
      show ?thesis unfolding calculateConfidence_cases
        by (cases "has_residents a")
          (simp_all only: o confidence_sums confidence_mins if_True if_False simp_thms)
    qed
  qed
  then show ?thesis by (simp only: min.commute)
qed

lemma calculateConfidence_mono:
  assumes "has_residents a \<longrightarrow> has_residents a'"
    and "quality_level l' = quality_level l
         \<or> (quality_level l = Some ''good'' \<and> quality_level l' = Some ''excellent'')"
  shows "calculateConfidence a l \<le> calculateConfidence a' l'"
proof -
  define v70 where "v70 = fl (7 / 10)"
  define v75 where "v75 = fl (75 / 100)"
  define v80 where "v80 = (7205759403792793 / 9007199254740992 :: rat)"
  define v85 where "v85 = fl (85 / 100)"
  define v90 where "v90 = fl (9 / 10)"
  define v95 where "v95 = fl (95 / 100)"
  have ch: "v70 \<le> v75" "v75 \<le> v80" "v80 \<le> v85" "v85 \<le> v90" "v90 \<le> v95"
    unfolding v70_def v75_def v80_def v85_def v90_def v95_def by (rule fl_literals_chain)+
  have c: "\<And>a l. calculateConfidence a l =
     (if has_residents a
      then (if quality_level l = Some ''excellent'' then v95
            else if quality_level l = Some ''good'' then v90 else v85)
      else (if quality_level l = Some ''excellent'' then v80
            else if quality_level l = Some ''good'' then v75 else v70))"
    unfolding v70_def v75_def v80_def v85_def v90_def v95_def
    by (rule calculateConfidence_cases)
  show ?thesis using assms ch unfolding c by (auto split: if_splits)
qed

lemma calculateConfidence_cap: "calculateConfidence a l \<le> fl (95 / 100)"
proof -
  define v70 where "v70 = fl (7 / 10)"
  define v75 where "v75 = fl (75 / 100)"
  define v80 where "v80 = (7205759403792793 / 9007199254740992 :: rat)"
  define v85 where "v85 = fl (85 / 100)"
  define v90 where "v90 = fl (9 / 10)"
  define v95 where "v95 = fl (95 / 100)"
  have ch: "v70 \<le> v75" "v75 \<le> v80" "v80 \<le> v85" "v85 \<le> v90" "v90 \<le> v95"
    unfolding v70_def v75_def v80_def v85_def v90_def v95_def by (rule fl_literals_chain)+
  have c: "calculateConfidence a l =
     (if has_residents a
      then (if quality_level l = Some ''excellent'' then v95
            else if quality_level l = Some ''good'' then v90 else v85)
      else (if quality_level l = Some ''excellent'' then v80
            else if quality_level l = Some ''good'' then v75 else v70))"
    unfolding v70_def v75_def v80_def v85_def v90_def v95_def
    by (rule calculateConfidence_cases)
  have "calculateConfidence a l \<le> v95" using ch unfolding c by (auto split: if_splits)
  then show ?thesis unfolding v95_def .
qed

text \<open>
  C3. \<open>calculateConfidence\<close> returns \<open>min(0.95, 0.70 + (0.15 if the agent result has a
  resident) + (0.10 if the LLM quality is excellent, 0.05 if good))\<close>, the sum evaluated
  from the left in double arithmetic as the code does. Adding a resident match, keeping the
  LLM quality or upgrading it from good to excellent, never decreases the result, and the
  result never exceeds 0.95 (neither the double 0.95 nor the decimal).
\<close>

theorem C3_calculateConfidence:
  "calculateConfidence a l =
     min (fl (95 / 100))
       (fadd (fadd (fl (7 / 10)) (if has_residents a then fl (15 / 100) else 0))
          (if quality_level l = Some ''excellent'' then fl (1 / 10)
           else if quality_level l = Some ''good'' then fl (5 / 100) else 0))
   \<and> ((has_residents a \<longrightarrow> has_residents a')
        \<and> (quality_level l' = quality_level l
            \<or> (quality_level l = Some ''good'' \<and> quality_level l' = Some ''excellent''))
        \<longrightarrow> calculateConfidence a l \<le> calculateConfidence a' l')
   \<and> calculateConfidence a l \<le> fl (95 / 100)
   \<and> calculateConfidence a l \<le> 95 / 100"
proof -
  have "calculateConfidence a l \<le> 95 / 100"
    using calculateConfidence_cap[of a l] fl_literals_chain(6) by (rule order_trans)
  then show ?thesis
    using calculateConfidence_formula[of a l] calculateConfidence_mono[where a = a and a' = a' and l = l and l' = l']
      calculateConfidence_cap[of a l]
    by blast
qed

text \<open>
  An instance: no resident and a good LLM answer against one resident and an excellent
  answer.
\<close>

theorem C3_calculateConfidence_witness:
  "calculateConfidence \<lparr> analysis = None, agent = None \<rparr>
       (Some \<lparr> response = None, level = Some ''good'' \<rparr>)
   \<le> calculateConfidence
       \<lparr> analysis = Some \<lparr> summary = None, atype = None,
             residents = Some [\<lparr> name = ''Ana'', neighborhood = None, whatsapp = None,
                                 satisfaction = None, issue = None,
                                 participateInterest = None, priority = None \<rparr>],
             insights = None, recommendations = None \<rparr>, agent = None \<rparr>
       (Some \<lparr> response = None, level = Some ''excellent'' \<rparr>)"
  using C3_calculateConfidence[of "\<lparr> analysis = None, agent = None \<rparr>"
      "Some \<lparr> response = None, level = Some ''good'' \<rparr>"
      "\<lparr> analysis = Some \<lparr> summary = None, atype = None,
             residents = Some [\<lparr> name = ''Ana'', neighborhood = None, whatsapp = None,
                                 satisfaction = None, issue = None,
                                 participateInterest = None, priority = None \<rparr>],
             insights = None, recommendations = None \<rparr>, agent = None \<rparr>"
      "Some \<lparr> response = None, level = Some ''excellent'' \<rparr>"]
  by (simp add: has_residents_def analysis_field_def quality_level_def)

subsection \<open>Arbitration\<close>

lemma choose_response_marker:
  assumes "isNameSearch qa" "analysis_field atype ag = Some ''name_search_result''"
  shows "choose_response qa ag llm = Inr (analysis_field summary ag, ''focused_search'')"
  using assms by (simp add: choose_response_def)

lemma choose_response_name_search:
  assumes "isNameSearch qa" "analysis_field atype ag \<noteq> Some ''name_search_result''"
    and "level l = Some ''excellent'' \<or> level l = Some ''good''" and "response l = Some L"
  shows "choose_response qa ag (Some l) =
           (if hasRealData ag L \<and> length L < 500 then Inr (Some L, ''llm-enhanced'')
            else Inr (Some (deterministic_text ag), ''focused_search''))"
  using assms by (auto simp: choose_response_def quality_level_def)

lemma choose_response_general:
  assumes "\<not> isNameSearch qa"
    and "level l = Some ''excellent'' \<or> level l = Some ''good''" and "response l = Some L"
  shows "choose_response qa ag (Some l) =
           (if hasRealData ag L \<or> 3 * length (deterministic_text ag) < 2 * length L
            then Inr (Some L, ''llm-enhanced'')
            else Inr (Some (deterministic_text ag), ''data-driven''))"
proof -
  have "((of_nat (length (deterministic_text ag)) * (3 / 2) :: rat) < of_nat (length L))
        \<longleftrightarrow> 3 * length (deterministic_text ag) < 2 * length L"
  proof -
    have "((of_nat (length (deterministic_text ag)) * (3 / 2) :: rat) < of_nat (length L))
        \<longleftrightarrow> (of_nat (3 * length (deterministic_text ag)) :: rat) < of_nat (2 * length L)"
      by (simp add: field_simps)
    then show ?thesis by (simp only: of_nat_less_iff)
  qed
  then show ?thesis using assms by (auto simp: choose_response_def quality_level_def Let_def)
qed

text \<open>
  C1. For a name-search query (\<open>dataNeeds\<close> contains \<open>name_search\<close>) whose deterministic
  candidate does not carry the \<open>name_search_result\<close> marker and whose LLM candidate has
  quality excellent or good, the final text is the LLM text exactly when that text contains
  the name of a resident of the deterministic candidate's list and is shorter than 500 code
  units; otherwise it is the deterministic text, in particular for an LLM text of length
  600, grounded or not. With the marker the response is the agent's summary whatever the
  LLM returned.
\<close>

theorem C1_name_search_arbitration:
  assumes "isNameSearch qa"
  shows "(analysis_field atype ag \<noteq> Some ''name_search_result''
          \<and> (level l = Some ''excellent'' \<or> level l = Some ''good'') \<and> response l = Some L
          \<longrightarrow> (\<exists>r. constructFinalResponse q qa ag (Some l) = Inr r
                \<and> fr_response r = Some (if spec_grounded ag L \<and> length L < 500 then L
                                         else deterministic_text ag)
                \<and> fr_llmEnhanced r = (spec_grounded ag L \<and> length L < 500)
                \<and> (length L = 600 \<longrightarrow> fr_response r = Some (deterministic_text ag)
                                       \<and> \<not> fr_llmEnhanced r)))
       \<and> (analysis_field atype ag = Some ''name_search_result''
          \<longrightarrow> (\<exists>r. constructFinalResponse q qa ag llm = Inr r
                \<and> fr_response r = analysis_field summary ag \<and> \<not> fr_llmEnhanced r))"
proof (intro conjI impI)
  assume h: "analysis_field atype ag \<noteq> Some ''name_search_result''
          \<and> (level l = Some ''excellent'' \<or> level l = Some ''good'') \<and> response l = Some L"
  show "\<exists>r. constructFinalResponse q qa ag (Some l) = Inr r
                \<and> fr_response r = Some (if spec_grounded ag L \<and> length L < 500 then L
                                         else deterministic_text ag)
                \<and> fr_llmEnhanced r = (spec_grounded ag L \<and> length L < 500)
                \<and> (length L = 600 \<longrightarrow> fr_response r = Some (deterministic_text ag)
                                       \<and> \<not> fr_llmEnhanced r)"
    using choose_response_name_search[OF assms, of ag l L] h
    by (auto simp: constructFinalResponse_def hasRealData_iff)
next
  assume "analysis_field atype ag = Some ''name_search_result''"
  then show "\<exists>r. constructFinalResponse q qa ag llm = Inr r
                \<and> fr_response r = analysis_field summary ag \<and> \<not> fr_llmEnhanced r"
    using choose_response_marker[OF assms, of ag llm]
    by (simp add: constructFinalResponse_def)
qed


text \<open>
  An instance: a name search that found Ana, an excellent LLM text that names her and is
  600 code units long. The deterministic summary is returned.
\<close>

theorem C1_name_search_arbitration_witness:
  "\<exists>r. constructFinalResponse ''Encontre Ana''
         \<lparr> scope = \<lparr> inScope = True, confidence = fl (95 / 100), categories = [],
                     canonicalIntent = None, reason = [] \<rparr>,
           intent = ''knowledge'', queryType = ''listing'', dataNeeds = [''name_search''],
           urgency = ''normal'', blocked = False \<rparr>
         \<lparr> analysis = Some \<lparr> summary = Some ''Encontrei 1 registro'', atype = None,
             residents = Some [\<lparr> name = ''Ana'', neighborhood = None, whatsapp = None,
                                 satisfaction = None, issue = None,
                                 participateInterest = None, priority = None \<rparr>],
             insights = None, recommendations = None \<rparr>, agent = None \<rparr>
         (Some \<lparr> response = Some (''Ana'' @ replicate 597 CHR ''x''), level = Some ''excellent'' \<rparr>)
       = Inr r
     \<and> fr_response r = Some ''Encontrei 1 registro'' \<and> \<not> fr_llmEnhanced r"
  using C1_name_search_arbitration[of
         "\<lparr> scope = \<lparr> inScope = True, confidence = fl (95 / 100), categories = [],
                     canonicalIntent = None, reason = [] \<rparr>,
           intent = ''knowledge'', queryType = ''listing'', dataNeeds = [''name_search''],
           urgency = ''normal'', blocked = False \<rparr>"
         "\<lparr> analysis = Some \<lparr> summary = Some ''Encontrei 1 registro'', atype = None,
             residents = Some [\<lparr> name = ''Ana'', neighborhood = None, whatsapp = None,
                                 satisfaction = None, issue = None,
                                 participateInterest = None, priority = None \<rparr>],
             insights = None, recommendations = None \<rparr>, agent = None \<rparr>"
         "\<lparr> response = Some (''Ana'' @ replicate 597 CHR ''x''), level = Some ''excellent'' \<rparr>"
         "''Ana'' @ replicate 597 CHR ''x''" "''Encontre Ana''"]
  by (simp add: isNameSearch_def arr_includes_def analysis_field_def
      deterministic_text_def) blast

text \<open>
  C2 as stated fails at the boundary: a deterministic text of length 2, an excellent LLM
  text of length 3 that names no resident. The lengths are in ratio 1.5, so the claim's
  \<open>len(L) \<ge> 1.5 \<times> len(D)\<close> holds, and the code keeps the deterministic text: its test is
  \<open>llmResult.response.length > primaryResponse.length * 1.5\<close>.
\<close>

theorem C2_boundary_counterexample:
  "constructFinalResponse ''q''
         \<lparr> scope = \<lparr> inScope = True, confidence = fl (9 / 10), categories = [],
                     canonicalIntent = None, reason = [] \<rparr>,
           intent = ''knowledge'', queryType = ''analysis'', dataNeeds = [],
           urgency = ''normal'', blocked = False \<rparr>
         \<lparr> analysis = Some \<lparr> summary = Some ''ab'', atype = None, residents = Some [],
             insights = None, recommendations = None \<rparr>, agent = None \<rparr>
         (Some \<lparr> response = Some ''xyz'', level = Some ''excellent'' \<rparr>)
     = Inr \<lparr> fr_query = ''q'', fr_intent = ''knowledge'', fr_response = Some ''ab'',
             fr_residents = [], fr_insights = [], fr_recommendations = [], fr_success = True,
             fr_confidence = Some (7205759403792793 / 9007199254740992),
             fr_responseQuality = Some ''data-driven'', fr_llmEnhanced = False \<rparr>
   \<and> (3 / 2) * of_nat (length ''ab'') \<le> (of_nat (length ''xyz'') :: rat)"
  by (simp add: constructFinalResponse_def choose_response_def isNameSearch_def arr_includes_def
      analysis_field_def deterministic_text_def quality_level_def hasRealData_def some_def
      calculateConfidence_cases has_residents_def)

text \<open>
  C2, amended. For a query that is not a name search and an LLM candidate of quality
  excellent or good, the final text is the LLM text if and only if that text contains the
  name of a resident of the deterministic candidate's list or is strictly longer than 1.5
  times the deterministic text (\<open>2 * len(L) > 3 * len(D)\<close>); otherwise it is the
  deterministic text.
\<close>

theorem C2_general_arbitration:
  assumes "\<not> isNameSearch qa"
    and "level l = Some ''excellent'' \<or> level l = Some ''good''"
    and "response l = Some L"
  shows "\<exists>r. constructFinalResponse q qa ag (Some l) = Inr r
           \<and> fr_response r =
               Some (if spec_grounded ag L \<or> 3 * length (deterministic_text ag) < 2 * length L
                     then L else deterministic_text ag)
           \<and> fr_llmEnhanced r =
               (spec_grounded ag L \<or> 3 * length (deterministic_text ag) < 2 * length L)"
  using choose_response_general[OF assms, of ag]
  by (auto simp: constructFinalResponse_def hasRealData_iff)

text \<open>An instance: no resident named, an LLM text of length 4 against one of length 2.\<close>

theorem C2_general_arbitration_witness:
  "\<exists>r. constructFinalResponse ''q''
         \<lparr> scope = \<lparr> inScope = True, confidence = fl (9 / 10), categories = [],
                     canonicalIntent = None, reason = [] \<rparr>,
           intent = ''knowledge'', queryType = ''analysis'', dataNeeds = [],
           urgency = ''normal'', blocked = False \<rparr>
         \<lparr> analysis = Some \<lparr> summary = Some ''ab'', atype = None, residents = Some [],
             insights = None, recommendations = None \<rparr>, agent = None \<rparr>
         (Some \<lparr> response = Some ''wxyz'', level = Some ''good'' \<rparr>) = Inr r
      \<and> fr_response r = Some ''wxyz'' \<and> fr_llmEnhanced r"
  using C2_general_arbitration[of
         "\<lparr> scope = \<lparr> inScope = True, confidence = fl (9 / 10), categories = [],
                     canonicalIntent = None, reason = [] \<rparr>,
           intent = ''knowledge'', queryType = ''analysis'', dataNeeds = [],
           urgency = ''normal'', blocked = False \<rparr>"
         "\<lparr> response = Some ''wxyz'', level = Some ''good'' \<rparr>" "''wxyz''" "''q''"
         "\<lparr> analysis = Some \<lparr> summary = Some ''ab'', atype = None, residents = Some [],
             insights = None, recommendations = None \<rparr>, agent = None \<rparr>"]
  by (simp add: isNameSearch_def arr_includes_def analysis_field_def
      deterministic_text_def)

subsection \<open>The blocked path\<close>

lemma orchestrate_blocked:
  assumes "blocked (analyzeQuery (hasValidApiKey sv) (scopeProvider sv) query)"
  shows "orchestrate sv query =
           ([], Blocked \<lparr> br_query = query, br_intent = ''out_of_scope'',
                           br_response = out_of_scope_message, br_success = True,
                           br_scope = scope (analyzeQuery (hasValidApiKey sv) (scopeProvider sv) query),
                           br_residents = [] \<rparr>)"
  using assms by (simp add: orchestrate_def Let_def)

text \<open>A query that is not blocked always reaches the context builder.\<close>

lemma orchestrate_not_blocked:
  assumes "\<not> blocked (analyzeQuery (hasValidApiKey sv) (scopeProvider sv) query)"
  shows "\<exists>t. fst (orchestrate sv query) = ContextBuilder # t"
  using assms
  by (auto simp: orchestrate_def Let_def split: prod.splits sum.splits)

text \<open>
  C9. When the analysis of a query is blocked, \<open>orchestrate\<close> returns at once: intent
  \<open>out_of_scope\<close>, no residents, the fixed redirection message, and no component has run
  (no context builder, agent, analysis engine, resident filter or LLM enhancement). The
  result does not depend on those collaborators at all: any two sets of services with the
  same API key and scope provider give the same result.
\<close>

theorem C9_blocked_is_terminal:
  assumes "blocked (analyzeQuery (hasValidApiKey sv) (scopeProvider sv) query)"
  shows "orchestrate sv query =
           ([], Blocked \<lparr> br_query = query, br_intent = ''out_of_scope'',
                           br_response = out_of_scope_message, br_success = True,
                           br_scope = scope (analyzeQuery (hasValidApiKey sv) (scopeProvider sv) query),
                           br_residents = [] \<rparr>)
         \<and> (\<forall>sv' :: 'a services. hasValidApiKey sv' = hasValidApiKey sv \<and> scopeProvider sv' = scopeProvider sv
               \<longrightarrow> orchestrate sv' query = orchestrate sv query)"
proof (intro conjI allI impI)
  show "orchestrate sv query =
           ([], Blocked \<lparr> br_query = query, br_intent = ''out_of_scope'',
                           br_response = out_of_scope_message, br_success = True,
                           br_scope = scope (analyzeQuery (hasValidApiKey sv) (scopeProvider sv) query),
                           br_residents = [] \<rparr>)"
    using assms by (rule orchestrate_blocked)
next
  fix sv' :: "'a services"
  assume h: "hasValidApiKey sv' = hasValidApiKey sv \<and> scopeProvider sv' = scopeProvider sv"
  then have "blocked (analyzeQuery (hasValidApiKey sv') (scopeProvider sv') query)"
    using assms by simp
  then show "orchestrate sv' query = orchestrate sv query"
    using orchestrate_blocked[of sv' query] orchestrate_blocked[OF assms] h by simp
qed

lemma analyzeQuery_empty: "analyzeQuery e p [] = createDefaultAnalysis ''Empty query''"
  by (simp add: analyzeQuery_def trim_nonempty_def)

text \<open>An instance: the empty query, with collaborators that would run other components.\<close>

theorem C9_blocked_is_terminal_witness:
  "orchestrate
      \<lparr> hasValidApiKey = True, scopeProvider = (\<lambda>q. CallFailed),
        generateIntelligentContext = (\<lambda>qa. ([AnalysisEngine], Inr ())),
        notificationAgent = (\<lambda>q qa c. ([ResidentFilter], Inl TypeError)),
        knowledgeAgent = (\<lambda>q qa c. ([ResidentFilter], Inl TypeError)),
        ticketAgent = (\<lambda>q qa c. ([], Inl TypeError)),
        enhanceWithLLM = (\<lambda>q qa c r. ([], Inl TypeError)) \<rparr> []
     = ([], Blocked \<lparr> br_query = [], br_intent = ''out_of_scope'',
                      br_response = out_of_scope_message, br_success = True,
                      br_scope = \<lparr> inScope = False, confidence = 0, categories = [],
                                   canonicalIntent = None, reason = ''Empty query'' \<rparr>,
                      br_residents = [] \<rparr>)"
proof -
  let ?sv = "\<lparr> hasValidApiKey = True, scopeProvider = (\<lambda>q. CallFailed),
        generateIntelligentContext = (\<lambda>qa. ([AnalysisEngine], Inr ())),
        notificationAgent = (\<lambda>q qa c. ([ResidentFilter], Inl TypeError)),
        knowledgeAgent = (\<lambda>q qa c. ([ResidentFilter], Inl TypeError)),
        ticketAgent = (\<lambda>q qa c. ([], Inl TypeError)),
        enhanceWithLLM = (\<lambda>q qa c r. ([], Inl TypeError)) \<rparr> :: unit services"
  have b: "blocked (analyzeQuery (hasValidApiKey ?sv) (scopeProvider ?sv) [])"
    by (simp add: analyzeQuery_empty createDefaultAnalysis_def)
  from C9_blocked_is_terminal[OF b] have
    "orchestrate ?sv [] =
       ([], Blocked \<lparr> br_query = [], br_intent = ''out_of_scope'',
                       br_response = out_of_scope_message, br_success = True,
                       br_scope = scope (analyzeQuery (hasValidApiKey ?sv) (scopeProvider ?sv) []),
                       br_residents = [] \<rparr>)"
    by (rule conjunct1)
  then show ?thesis by (simp add: analyzeQuery_empty createDefaultAnalysis_def)
qed

subsection \<open>Scope classification\<close>

lemma classify_flip:
  assumes "provider query = Parsed v" "verdict_inScope v" "verdict_confidence v < fl (65 / 100)"
    and "\<forall>t \<in> set scopeTokens. \<not> str_includes (toLowerCase query) t"
  shows "\<not> cl_inScope (classify True provider query)"
proof -
  have "filter (\<lambda>t. str_includes (toLowerCase query) t) scopeTokens = []"
    using assms(4) by (simp add: filter_empty_conv)
  then show ?thesis using assms(1-3) by (simp add: classify_def Let_def)
qed

lemma analyzeQuery_fallback:
  assumes "reaches_classifier query"
  shows "analyzeQuery enabled provider query =
     (let sc = classify enabled provider query;
          h = analyzeQueryHeuristically query
      in if \<not> cl_inScope sc
         then \<lparr> scope = \<lparr> inScope = False, confidence = cl_confidence sc, categories = [],
                          canonicalIntent = None, reason = cl_reason sc \<rparr>,
                intent = ''out_of_scope'', queryType = ''blocked'', dataNeeds = [],
                urgency = ''normal'', blocked = True \<rparr>
         else if cl_confidence sc < fl (65 / 100) \<and> \<not> hasMunicipalDomainTokens query
         then \<lparr> scope = \<lparr> inScope = False, confidence = cl_confidence sc, categories = [],
                         canonicalIntent = None,
                         reason = ''Low-confidence classification and no municipal domain tokens detected'' \<rparr>,
               intent = ''out_of_scope'', queryType = ''blocked'', dataNeeds = [],
               urgency = ''normal'', blocked = True \<rparr>
         else \<lparr> scope = \<lparr> inScope = True, confidence = cl_confidence sc,
                         categories = cl_categories sc, canonicalIntent = None,
                         reason = cl_reason sc \<rparr>,
               intent = primaryIntent h, queryType = h_queryType h, dataNeeds = h_dataNeeds h,
               urgency = h_urgency h, blocked = False \<rparr>)"
proof -
  from assms have
    c1: "trim_nonempty query = True" and
    c2: "isStatisticalOrOperationalQuery query = False" and
    c3: "(some (map normalize_js analysisKeywords) (str_includes (normalize_js query))
          \<and> some (map normalize_js displayVerbs) (str_includes (normalize_js query))) = False" and
    c4: "(some (map normalize_js analysisKeywords) (str_includes (normalize_js query))
          \<and> (str_includes (normalize_js query) ''de'' \<or> str_includes (normalize_js query) ''do''
              \<or> str_includes (normalize_js query) ''da'')) = False" and
    c5: "(some residentFilterKeywords (str_includes (normalize_js query))
          \<and> (some filterVerbs (str_includes (normalize_js query))
              \<or> (str_includes (normalize_js query) ''morador''
                  \<or> str_includes (normalize_js query) ''moradores''
                  \<or> str_includes (normalize_js query) ''resident''
                  \<or> str_includes (normalize_js query) ''residents''
                  \<or> str_includes (normalize_js query) ''cidadao''
                  \<or> str_includes (normalize_js query) ''cidadaos''
                  \<or> str_includes (normalize_js query) ''cidadas''))) = False" and
    c6: "detectNameSearch query = False"
    unfolding reaches_classifier_def Let_def by blast+
  show ?thesis
    unfolding analyzeQuery_def Let_def
    by (simp only: c1 c2 c3 c4 c5 c6 if_False if_True not_True_eq_False not_False_eq_True)
qed


text \<open>
  C4. When the reply of the external classifier parses to a verdict that is in scope with
  a confidence below 0.65 and the lower-cased query contains none of the municipal anchor
  tokens, \<open>classify\<close> returns \<open>inScope = false\<close>. End to end, every such query that
  \<open>analyzeQuery\<close> hands to the classifier is blocked with intent \<open>out_of_scope\<close>, and
  \<open>orchestrate\<close> returns the blocked response; "Quero pedir uma pizza" is one.
\<close>

theorem C4_low_confidence_flip:
  assumes "provider query = Parsed v"
    and "verdict_inScope v"
    and "verdict_confidence v < fl (65 / 100)"
    and "\<forall>t \<in> set scopeTokens. \<not> str_includes (toLowerCase query) t"
  shows "\<not> cl_inScope (classify True provider query)
       \<and> (reaches_classifier query \<longrightarrow>
            blocked (analyzeQuery True provider query)
            \<and> intent (analyzeQuery True provider query) = ''out_of_scope''
            \<and> (\<forall>sv :: 'a services. hasValidApiKey sv \<and> scopeProvider sv = provider \<longrightarrow>
                  (\<exists>b. orchestrate sv query = ([], Blocked b) \<and> br_intent b = ''out_of_scope'')))"
proof (intro conjI impI allI)
  show f: "\<not> cl_inScope (classify True provider query)"
    using assms by (rule classify_flip)
  assume r: "reaches_classifier query"
  have a: "analyzeQuery True provider query =
      \<lparr> scope = \<lparr> inScope = False, confidence = cl_confidence (classify True provider query),
                  categories = [], canonicalIntent = None,
                  reason = cl_reason (classify True provider query) \<rparr>,
        intent = ''out_of_scope'', queryType = ''blocked'', dataNeeds = [],
        urgency = ''normal'', blocked = True \<rparr>"
    using f by (simp add: analyzeQuery_fallback[OF r] Let_def)
  show b: "blocked (analyzeQuery True provider query)" by (simp add: a)
  show "intent (analyzeQuery True provider query) = ''out_of_scope''" by (simp add: a)
  fix sv :: "'a services"
  assume "hasValidApiKey sv \<and> scopeProvider sv = provider"
  then have "blocked (analyzeQuery (hasValidApiKey sv) (scopeProvider sv) query)"
    using b by simp
  then show "\<exists>b. orchestrate sv query = ([], Blocked b) \<and> br_intent b = ''out_of_scope''"
    by (simp add: orchestrate_blocked)
qed

lemma pizza_reaches_classifier: "reaches_classifier ''Quero pedir uma pizza''"
  by code_simp

lemma pizza_no_tokens:
  "\<forall>t \<in> set scopeTokens. \<not> str_includes (toLowerCase ''Quero pedir uma pizza'') t"
  by code_simp

text \<open>An instance: "Quero pedir uma pizza", judged in scope with confidence 0.6.\<close>

theorem C4_low_confidence_flip_witness:
  "blocked (analyzeQuery True
      (\<lambda>q. Parsed \<lparr> v_in_scope = None, v_inScope = Some True, v_status = None,
                     v_confidence = Some (6 / 10), v_score = None, v_categories = None,
                     v_reason = None, v_explanation = None \<rparr>)
      ''Quero pedir uma pizza'')
   \<and> intent (analyzeQuery True
      (\<lambda>q. Parsed \<lparr> v_in_scope = None, v_inScope = Some True, v_status = None,
                     v_confidence = Some (6 / 10), v_score = None, v_categories = None,
                     v_reason = None, v_explanation = None \<rparr>)
      ''Quero pedir uma pizza'') = ''out_of_scope''"
proof -
  let ?v = "\<lparr> v_in_scope = None, v_inScope = Some True, v_status = None,
               v_confidence = Some (6 / 10), v_score = None, v_categories = None,
               v_reason = None, v_explanation = None \<rparr>"
  have 1: "(\<lambda>q. Parsed ?v) ''Quero pedir uma pizza'' = Parsed ?v" by simp
  have 2: "verdict_inScope ?v" by (simp add: verdict_inScope_def)
  have 3: "verdict_confidence ?v < fl (65 / 100)" by code_simp
  from C4_low_confidence_flip[of "\<lambda>q. Parsed ?v" "''Quero pedir uma pizza''" ?v, OF 1 2 3 pizza_no_tokens]
    pizza_reaches_classifier
  show ?thesis by blast
qed

subsection \<open>Filter priority\<close>

text \<open>
  C5. \<open>determineFilterType\<close> tries its filter kinds in the order participation not
  interested, participation interested, name search, dissatisfied, satisfied, all with
  survey, and returns the first that matches, or null when none does. In particular a
  query with the "not interested in participating" pattern gets
  \<open>participation_not_interested\<close> also when it holds a search verb and a name-like token,
  never \<open>name_search\<close>.
\<close>

theorem C5_determineFilterType_priority:
  "(not_interested_pattern (normalize_js query)
      \<longrightarrow> determineFilterType query = Some ''participation_not_interested'')
   \<and> (\<not> not_interested_pattern (normalize_js query) \<and> interested_pattern (normalize_js query)
      \<longrightarrow> determineFilterType query = Some ''participation_interested'')
   \<and> (\<not> not_interested_pattern (normalize_js query) \<and> \<not> interested_pattern (normalize_js query)
       \<and> isNameSearchQuery query
      \<longrightarrow> determineFilterType query = Some ''name_search'')
   \<and> (\<not> not_interested_pattern (normalize_js query) \<and> \<not> interested_pattern (normalize_js query)
       \<and> \<not> isNameSearchQuery query \<and> dissatisfied_pattern (normalize_js query)
      \<longrightarrow> determineFilterType query = Some ''dissatisfied'')
   \<and> (\<not> not_interested_pattern (normalize_js query) \<and> \<not> interested_pattern (normalize_js query)
       \<and> \<not> isNameSearchQuery query \<and> \<not> dissatisfied_pattern (normalize_js query)
       \<and> satisfied_pattern (normalize_js query)
      \<longrightarrow> determineFilterType query = Some ''satisfied'')
   \<and> (\<not> not_interested_pattern (normalize_js query) \<and> \<not> interested_pattern (normalize_js query)
       \<and> \<not> isNameSearchQuery query \<and> \<not> dissatisfied_pattern (normalize_js query)
       \<and> \<not> satisfied_pattern (normalize_js query) \<and> listing_pattern (normalize_js query)
      \<longrightarrow> determineFilterType query = Some ''all_with_survey'')
   \<and> (\<not> not_interested_pattern (normalize_js query) \<and> \<not> interested_pattern (normalize_js query)
       \<and> \<not> isNameSearchQuery query \<and> \<not> dissatisfied_pattern (normalize_js query)
       \<and> \<not> satisfied_pattern (normalize_js query) \<and> \<not> listing_pattern (normalize_js query)
      \<longrightarrow> determineFilterType query = None)
   \<and> (not_interested_pattern (normalize_js query)
       \<and> some searchVerbs (\<lambda>verb. str_includes (normalize_js query) verb)
       \<and> list_ex nameLike (split_ws query)
      \<longrightarrow> determineFilterType query = Some ''participation_not_interested''
          \<and> determineFilterType query \<noteq> Some ''name_search'')"
  by (simp add: determineFilterType_def Let_def)


text \<open>
  An instance: a query that \<open>isNameSearchQuery\<close> accepts as a name search and that says
  "would not participate".
\<close>

theorem C5_determineFilterType_priority_witness:
  "isNameSearchQuery (''Encontre Jo'' @ [CHR 0xE3] @ ''o que n'' @ [CHR 0xE3] @ ''o participaria'')
   \<and> determineFilterType (''Encontre Jo'' @ [CHR 0xE3] @ ''o que n'' @ [CHR 0xE3] @ ''o participaria'')
       = Some ''participation_not_interested''"
proof -
  let ?q = "''Encontre Jo'' @ [CHR 0xE3] @ ''o que n'' @ [CHR 0xE3] @ ''o participaria''"
  have 1: "not_interested_pattern (normalize_js ?q)" by code_simp
  have 2: "some searchVerbs (\<lambda>verb. str_includes (normalize_js ?q) verb)" by code_simp
  have 3: "list_ex nameLike (split_ws ?q)" by code_simp
  have 4: "isNameSearchQuery ?q" by code_simp
  from C5_determineFilterType_priority[of ?q] 1 2 3 4 show ?thesis by blast
qed

subsection \<open>Participation filters\<close>

text \<open>
  What the two filters keep. The not-interested filter normalises the answer; the
  interested filter compares it with the literal \<open>Sim\<close>.
\<close>

lemma not_interested_iff:
  "not_interested c \<longleftrightarrow>
     (\<exists>s p. c_survey c = Some s \<and> sv_participate s = Some p
            \<and> (normalize_js p = ''nao'' \<or> normalize_js p = ''no''))"
proof -
  have e: "normalize_js [] = []"
    by (simp add: normalize_js_def toLowerCase_def strip_diacritics_def)
  show ?thesis
    by (cases "c_survey c")
       (auto simp: not_interested_def survey_field_def normalize_js_def Let_def e
             toLowerCase_def strip_diacritics_def split: option.splits)
qed

lemma filterParticipationNotInterested_set:
  "set (filterParticipationNotInterested contacts) =
     (\<lambda>c. row c (Some ''NOT_WILLING'')) ` {c \<in> set contacts. not_interested c}"
  by (simp add: filterParticipationNotInterested_def)

lemma filterParticipationInterested_set:
  "set (filterParticipationInterested contacts) =
     (\<lambda>c. row c (Some ''ENGAGED'')) ` {c \<in> set contacts.
        \<exists>s. c_survey c = Some s \<and> sv_participate s = Some ''Sim''}"
  by (auto simp: filterParticipationInterested_def interested_def split: option.splits)

text \<open>
  C8 on concrete records. A contact who answered \<open>sim\<close> is left out by
  \<open>filterParticipationInterested\<close> while one who answered \<open>Sim\<close> is kept with priority
  ENGAGED, although both answers normalise to the same string;
  \<open>filterParticipationNotInterested\<close> keeps both the answer with a
  tilde (code unit \<open>0xE3\<close>) and \<open>nao\<close>, with priority NOT_WILLING.
\<close>

theorem C8_interested_filter_is_case_sensitive:
  "filterParticipationInterested
      [\<lparr> c_name = ''Ana'', c_neighborhood = None, c_whatsapp = None,
         c_survey = Some \<lparr> sv_issue = None, sv_satisfaction = None, sv_participate = Some ''sim'' \<rparr> \<rparr>]
     = []
   \<and> filterParticipationInterested
      [\<lparr> c_name = ''Ana'', c_neighborhood = None, c_whatsapp = None,
         c_survey = Some \<lparr> sv_issue = None, sv_satisfaction = None, sv_participate = Some ''Sim'' \<rparr> \<rparr>]
     = [\<lparr> name = ''Ana'', neighborhood = None, whatsapp = None, satisfaction = None, issue = None,
          participateInterest = Some ''Sim'', priority = Some ''ENGAGED'' \<rparr>]
   \<and> normalize_js ''sim'' = normalize_js ''Sim''
   \<and> filterParticipationNotInterested
      [\<lparr> c_name = ''Rui'', c_neighborhood = None, c_whatsapp = None,
         c_survey = Some \<lparr> sv_issue = None, sv_satisfaction = None,
                            sv_participate = Some (''N'' @ [CHR 0xE3] @ ''o'') \<rparr> \<rparr>,
       \<lparr> c_name = ''Eva'', c_neighborhood = None, c_whatsapp = None,
         c_survey = Some \<lparr> sv_issue = None, sv_satisfaction = None, sv_participate = Some ''nao'' \<rparr> \<rparr>]
     = [\<lparr> name = ''Rui'', neighborhood = None, whatsapp = None, satisfaction = None, issue = None,
          participateInterest = Some (''N'' @ [CHR 0xE3] @ ''o''), priority = Some ''NOT_WILLING'' \<rparr>,
        \<lparr> name = ''Eva'', neighborhood = None, whatsapp = None, satisfaction = None, issue = None,
          participateInterest = Some ''nao'', priority = Some ''NOT_WILLING'' \<rparr>]"
  by code_simp

subsection \<open>Rounding to double\<close>

text \<open>
  \<open>ilog2\<close> is the binary exponent, \<open>round_even\<close> rounds to the nearest integer with ties
  to even; from these \<open>fl\<close> is monotone, keeps the sign and is exact on doubles.
\<close>

lemma pow2_powi: "pow2 e = 2 powi e"
  by (simp add: pow2_def power_int_def inverse_eq_divide power_one_over)

lemma pow2_pos: "0 < pow2 e"
  by (simp add: pow2_powi)

lemma pow2_add: "pow2 (a + b) = pow2 a * pow2 b"
  by (simp add: pow2_powi power_int_add)

lemma pow2_mono: "a \<le> b \<Longrightarrow> pow2 a \<le> pow2 b"
  by (simp add: pow2_powi power_int_increasing)

lemma pow2_strict_mono: "a < b \<Longrightarrow> pow2 a < pow2 b"
  by (simp add: pow2_powi power_int_strict_increasing)

lemma pow2_nat: "pow2 (int n) = 2 ^ n"
  by (simp add: pow2_def)

lemma pow2_shift: "pow2 (e + int n) = 2 ^ n * pow2 e"
  by (simp add: pow2_add pow2_nat)

lemma ilog2_bounds:
  assumes "0 < x"
  shows "pow2 (ilog2 x) \<le> x" and "x < pow2 (ilog2 x + 1)"
proof -
  obtain p q where pq: "quotient_of x = (p, q)" by (cases "quotient_of x")
  have q: "0 < q" using pq by (rule quotient_of_denom_pos)
  have x: "x = of_int p / of_int q" using pq by (rule quotient_of_div)
  have p: "0 < p" using assms q x by (simp add: zero_less_divide_iff)
  define d where "d = bitlen p - bitlen q"
  have bp: "2 ^ nat (bitlen p - 1) \<le> p" "p < 2 ^ nat (bitlen p)" using bitlen_bounds[OF p] by auto
  have bq: "2 ^ nat (bitlen q - 1) \<le> q" "q < 2 ^ nat (bitlen q)" using bitlen_bounds[OF q] by auto
  have lp: "1 \<le> bitlen p" using p by (simp add: bitlen_alt_def floorlog_def)
  have lq: "1 \<le> bitlen q" using q by (simp add: bitlen_alt_def floorlog_def)
  have P1: "pow2 (bitlen p - 1) \<le> of_int p" 
    using bp(1) lp by (auto simp: pow2_def)
  have P2: "of_int p < pow2 (bitlen p)"
    using bp(2) lp by (auto simp: pow2_def)
  have Q1: "pow2 (bitlen q - 1) \<le> of_int q" 
    using bq(1) lq by (auto simp: pow2_def)
  have Q2: "of_int q < pow2 (bitlen q)"
    using bq(2) lq by (auto simp: pow2_def)
  have qr: "(0::rat) < of_int q" using q by simp
  have lo: "pow2 (d - 1) \<le> x"
  proof -
    have "pow2 (d - 1) * of_int q \<le> pow2 (d - 1) * pow2 (bitlen q)"
      using Q2 pow2_pos[of "d - 1"] by (simp add: less_imp_le)
    also have "\<dots> = pow2 (bitlen p - 1)" by (simp add: d_def pow2_add[symmetric])
    also have "\<dots> \<le> of_int p" by (rule P1)
    finally show ?thesis using qr by (simp add: x pos_le_divide_eq)
  qed
  have hi: "x < pow2 (d + 1)"
  proof -
    have "of_int p < pow2 (bitlen p)" by (rule P2)
    also have "\<dots> = pow2 (d + 1) * pow2 (bitlen q - 1)" by (simp add: d_def pow2_add[symmetric])
    also have "\<dots> \<le> pow2 (d + 1) * of_int q"
      using Q1 pow2_pos[of "d + 1"] by simp
    finally show ?thesis using qr by (simp add: x pos_divide_less_eq)
  qed
  have e: "ilog2 x = (if pow2 d \<le> x then d else d - 1)"
    by (simp add: ilog2_def pq d_def Let_def)
  show "pow2 (ilog2 x) \<le> x" using lo by (simp add: e)
  show "x < pow2 (ilog2 x + 1)" using hi by (simp add: e)
qed

lemma ilog2_unique:
  assumes "pow2 e \<le> x" "x < pow2 (e + 1)"
  shows "ilog2 x = e"
proof -
  have x: "0 < x" using assms(1) pow2_pos[of e] by simp
  have "pow2 (ilog2 x) < pow2 (e + 1)" using ilog2_bounds(1)[OF x] assms(2) by simp
  then have 1: "ilog2 x < e + 1" using pow2_mono[of "e + 1" "ilog2 x"] by (cases "ilog2 x < e + 1") auto
  have "pow2 e < pow2 (ilog2 x + 1)" using ilog2_bounds(2)[OF x] assms(1) by simp
  then have 2: "e < ilog2 x + 1" using pow2_mono[of "ilog2 x + 1" e] by (cases "e < ilog2 x + 1") auto
  show ?thesis using 1 2 by simp
qed


lemma round_even_of_int: "round_even (of_int n) = n"
  by (simp add: round_even_def)

lemma round_even_near:
  "of_int (round_even x) \<le> x + 1 / 2" "x - 1 / 2 \<le> of_int (round_even x)"
proof -
  have f: "of_int \<lfloor>x\<rfloor> \<le> x" "x < of_int \<lfloor>x\<rfloor> + 1" by linarith+
  show "of_int (round_even x) \<le> x + 1 / 2"
    unfolding round_even_def Let_def using f by (simp split: if_splits) linarith?
  show "x - 1 / 2 \<le> of_int (round_even x)"
    unfolding round_even_def Let_def using f by (simp split: if_splits) linarith?
qed

lemma round_even_floor: "\<lfloor>x\<rfloor> \<le> round_even x" "round_even x \<le> \<lfloor>x\<rfloor> + 1"
  by (auto simp: round_even_def Let_def)

lemma round_even_mono:
  assumes "x \<le> y"
  shows "round_even x \<le> round_even y"
proof (cases "\<lfloor>x\<rfloor> = \<lfloor>y\<rfloor>")
  case True
  then show ?thesis using assms by (auto simp: round_even_def Let_def)
next
  case False
  then have "\<lfloor>x\<rfloor> < \<lfloor>y\<rfloor>" using floor_mono[OF assms] by simp
  then have "\<lfloor>x\<rfloor> + 1 \<le> \<lfloor>y\<rfloor>" by simp
  then show ?thesis using round_even_floor(2)[of x] round_even_floor(1)[of y] by linarith
qed

text \<open>The rounding of a positive number, its range and its sign.\<close>

lemma fl_pos_eq:
  assumes "0 < x"
  shows "fl x = of_int (round_even (x / pow2 (ilog2 x - 52))) * pow2 (ilog2 x - 52)"
  using assms by (simp add: fl_def Let_def)

lemma fl_neg: "fl (- x) = - fl x"
  by (simp add: fl_def Let_def sgn_if)

lemma scaled_range:
  assumes "0 < x"
  shows "2 ^ 52 \<le> x / pow2 (ilog2 x - 52)" "x / pow2 (ilog2 x - 52) < 2 ^ 53"
proof -
  have u: "0 < pow2 (ilog2 x - 52)" by (rule pow2_pos)
  have a: "pow2 (ilog2 x) = 2 ^ 52 * pow2 (ilog2 x - 52)"
    using pow2_shift[of "ilog2 x - 52" 52] by simp
  have b: "pow2 (ilog2 x + 1) = 2 ^ 53 * pow2 (ilog2 x - 52)"
    using pow2_shift[of "ilog2 x - 52" 53] by (simp add: add.commute)
  show "2 ^ 52 \<le> x / pow2 (ilog2 x - 52)"
    using ilog2_bounds(1)[OF assms] u unfolding a by (simp add: pos_le_divide_eq)
  show "x / pow2 (ilog2 x - 52) < 2 ^ 53"
    using ilog2_bounds(2)[OF assms] u unfolding b by (simp add: pos_divide_less_eq)
qed

lemma fl_pos_range:
  assumes "0 < x"
  shows "pow2 (ilog2 x) \<le> fl x" "fl x \<le> pow2 (ilog2 x + 1)"
proof -
  let ?u = "pow2 (ilog2 x - 52)"
  let ?m = "round_even (x / ?u)"
  have u: "0 < ?u" by (rule pow2_pos)
  have a: "pow2 (ilog2 x) = 2 ^ 52 * ?u"
    using pow2_shift[of "ilog2 x - 52" 52] by simp
  have b: "pow2 (ilog2 x + 1) = 2 ^ 53 * ?u"
    using pow2_shift[of "ilog2 x - 52" 53] by (simp add: add.commute)
  have "round_even (of_int (2 ^ 52)) \<le> ?m"
    using scaled_range(1)[OF assms] by (intro round_even_mono) simp
  then have lo: "(2 ^ 52 :: int) \<le> ?m" by (simp only: round_even_of_int)
  have "?m \<le> round_even (of_int (2 ^ 53))"
    using scaled_range(2)[OF assms] by (intro round_even_mono) simp
  then have hi: "?m \<le> (2 ^ 53 :: int)" by (simp only: round_even_of_int)
  have lo': "(2 ^ 52 :: rat) \<le> of_int ?m"
    using lo by simp
  have hi': "of_int ?m \<le> (2 ^ 53 :: rat)"
    using hi by simp
  show "pow2 (ilog2 x) \<le> fl x"
    unfolding a fl_pos_eq[OF assms] using lo' u by (intro mult_right_mono) auto
  show "fl x \<le> pow2 (ilog2 x + 1)"
    unfolding b fl_pos_eq[OF assms] using hi' u by (intro mult_right_mono) auto
qed

lemma fl_pos: "0 < x \<Longrightarrow> 0 < fl x"
  using fl_pos_range(1)[of x] pow2_pos[of "ilog2 x"] by simp

lemma fl_zero: "fl 0 = 0"
  by (simp add: fl_def)

lemma fl_nonneg: "0 \<le> x \<Longrightarrow> 0 \<le> fl x"
  using fl_pos[of x] fl_zero by (cases "x = 0") (auto simp: less_imp_le)

lemma fl_nonpos: "x \<le> 0 \<Longrightarrow> fl x \<le> 0"
  using fl_nonneg[of "- x"] by (simp add: fl_neg)

lemma fl_mono_pos:
  assumes "0 < x" "x \<le> y"
  shows "fl x \<le> fl y"
proof -
  have y: "0 < y" using assms by simp
  have "pow2 (ilog2 x) < pow2 (ilog2 y + 1)"
    using ilog2_bounds(1)[OF assms(1)] ilog2_bounds(2)[OF y] assms(2) by simp
  then have le: "ilog2 x \<le> ilog2 y"
    using pow2_mono[of "ilog2 y + 1" "ilog2 x"] by (cases "ilog2 x \<le> ilog2 y") auto
  show ?thesis
  proof (cases "ilog2 x = ilog2 y")
    case True
    let ?u = "pow2 (ilog2 y - 52)"
    have u: "0 < ?u" by (rule pow2_pos)
    have "x / ?u \<le> y / ?u" using assms(2) u by (simp add: divide_right_mono)
    then have "round_even (x / ?u) \<le> round_even (y / ?u)" by (rule round_even_mono)
    then have "(of_int (round_even (x / ?u)) :: rat) \<le> of_int (round_even (y / ?u))" by simp
    then show ?thesis
      unfolding fl_pos_eq[OF assms(1)] fl_pos_eq[OF y] True using u
      by (intro mult_right_mono) auto
  next
    case False
    then have "ilog2 x + 1 \<le> ilog2 y" using le by simp
    then have "pow2 (ilog2 x + 1) \<le> pow2 (ilog2 y)" by (rule pow2_mono)
    then show ?thesis
      using fl_pos_range(2)[OF assms(1)] fl_pos_range(1)[OF y] by linarith
  qed
qed

lemma fl_mono:
  assumes "x \<le> y"
  shows "fl x \<le> fl y"
proof -
  consider "0 < x" | "x \<le> 0" "0 \<le> y" | "y < 0" by linarith
  then show ?thesis
  proof cases
    case 1
    then show ?thesis using assms by (rule fl_mono_pos)
  next
    case 2
    then show ?thesis using fl_nonpos[of x] fl_nonneg[of y] by linarith
  next
    case 3
    then have "fl (- y) \<le> fl (- x)" using assms by (intro fl_mono_pos) auto
    then show ?thesis by (simp add: fl_neg)
  qed
qed

text \<open>A number with an integer significand below \<open>2^53\<close> is a double: rounding keeps it.\<close>

lemma fl_exact_pos:
  assumes "0 < m" "m < 2 ^ 53"
  shows "fl (of_int m * pow2 k) = of_int m * pow2 k"
proof -
  define x :: rat where "x = of_int m * pow2 k"
  define e where "e = ilog2 x"
  have x: "0 < x" using assms(1) pow2_pos[of k] by (simp add: x_def)
  have "(of_int m :: rat) < 2 ^ 53"
    using assms(2) by simp
  then have "x < 2 ^ 53 * pow2 k" using pow2_pos[of k] by (simp add: x_def)
  also have "\<dots> = pow2 (k + 53)" using pow2_shift[of k 53] by simp
  finally have "pow2 e < pow2 (k + 53)" using ilog2_bounds(1)[OF x] by (simp add: e_def)
  then have "e < k + 53"
    using pow2_mono[of "k + 53" e] by (cases "e < k + 53") auto
  then have j: "0 \<le> k - (e - 52)" by simp
  define j where "j = nat (k - (e - 52))"
  have "pow2 k = pow2 ((e - 52) + int j)" using j by (simp add: j_def)
  then have k: "pow2 k = 2 ^ j * pow2 (e - 52)" by (simp only: pow2_shift)
  have u: "pow2 (e - 52) \<noteq> 0" using pow2_pos[of "e - 52"] by simp
  have "x / pow2 (e - 52) = of_int m * 2 ^ j" using u by (simp add: x_def k)
  also have "\<dots> = of_int (m * 2 ^ j)" by simp
  finally have "round_even (x / pow2 (e - 52)) = m * 2 ^ j"
    by (simp only: round_even_of_int)
  then have "fl x = of_int (m * 2 ^ j) * pow2 (e - 52)"
    using fl_pos_eq[OF x] by (simp only: e_def)
  also have "\<dots> = x" by (simp add: x_def k)
  finally show ?thesis by (simp only: x_def)
qed

lemma fl_of_nat: "n < 2 ^ 53 \<Longrightarrow> fl (of_nat n) = of_nat n"
proof (cases "n = 0")
  case True
  then show ?thesis by (simp add: fl_zero)
next
  case False
  assume "n < 2 ^ 53"
  then have "int n < 2 ^ 53" by simp
  then show ?thesis using fl_exact_pos[of "int n" 0] False by (simp add: pow2_def)
qed

subsection \<open>Thresholds in double arithmetic\<close>

text \<open>
  The percentage \<open>(d / t) * 100\<close> and the share \<open>n * 0.4\<close> are rounded twice. For counts
  below \<open>2^50\<close> the comparisons the code makes on them agree with the exact fractions.
\<close>

lemma pct40_at: "fl (fl (4 / 10) * 100) = 40" by code_simp
lemma pct40_below:
  "fl (900719925474099 / 2251799813685248) = 900719925474099 / 2251799813685248"
  "fl (900719925474099 / 2251799813685248 * 100) < 40"
  by code_simp+
lemma pct25_at: "fl (1 / 4) = 1 / 4" "fl (1 / 4 * 100) = 25" by code_simp+
lemma pct25_below:
  "fl (4503599627370495 / 18014398509481984) = 4503599627370495 / 18014398509481984"
  "fl (4503599627370495 / 18014398509481984 * 100) < 25"
  by code_simp+

lemma percent_ge_40:
  assumes "0 < t" "t < 2 ^ 50"
  shows "40 \<le> fmul (fdiv (of_nat d) (of_nat t)) 100 \<longleftrightarrow> 2 * t \<le> 5 * d"
proof
  assume "2 * t \<le> 5 * d"
  then have "(2 * of_nat t :: rat) \<le> 5 * of_nat d"
    by (simp only: of_nat_le_iff[where ?'a = rat, symmetric] of_nat_mult of_nat_numeral)
  then have "(4 / 10 :: rat) \<le> of_nat d / of_nat t"
    using assms(1) by (simp add: pos_le_divide_eq)
  then have "fl (4 / 10) \<le> fl (of_nat d / of_nat t)" by (rule fl_mono)
  then have "fl (4 / 10) * 100 \<le> fl (of_nat d / of_nat t) * 100" by simp
  then have "fl (fl (4 / 10) * 100) \<le> fl (fl (of_nat d / of_nat t) * 100)" by (rule fl_mono)
  then show "40 \<le> fmul (fdiv (of_nat d) (of_nat t)) 100"
    by (simp only: pct40_at fmul_def fdiv_def)
next
  assume a: "40 \<le> fmul (fdiv (of_nat d) (of_nat t)) 100"
  show "2 * t \<le> 5 * d"
  proof (rule ccontr)
    assume "\<not> 2 * t \<le> 5 * d"
    then have "5 * d + 1 \<le> 2 * t" by simp
    then have 1: "(5 * of_nat d + 1 :: rat) \<le> 2 * of_nat t"
      by (simp only: of_nat_le_iff[where ?'a = rat, symmetric] of_nat_mult of_nat_add of_nat_numeral of_nat_1)
    have 2: "(of_nat t :: rat) \<le> 1125899906842624" using assms(2) by simp
    have 3: "(0 :: rat) < of_nat t" using assms(1) by simp
    have "(2251799813685248 * of_nat d :: rat) \<le> 900719925474099 * of_nat t"
      using 1 2 by linarith
    then have "(of_nat d / of_nat t :: rat) \<le> 900719925474099 / 2251799813685248"
      using 3 by (simp add: field_simps)
    then have "fl (of_nat d / of_nat t) \<le> fl (900719925474099 / 2251799813685248)"
      by (rule fl_mono)
    then have "fl (of_nat d / of_nat t) * 100 \<le> 900719925474099 / 2251799813685248 * 100"
      by (simp only: pct40_below(1) mult_right_mono)
    then have "fl (fl (of_nat d / of_nat t) * 100) \<le> fl (900719925474099 / 2251799813685248 * 100)"
      by (rule fl_mono)
    then have "fmul (fdiv (of_nat d) (of_nat t)) 100 < 40"
      unfolding fmul_def fdiv_def using pct40_below(2) by linarith
    then show False using a by simp
  qed
qed

lemma percent_ge_25:
  assumes "0 < t" "t < 2 ^ 50"
  shows "25 \<le> fmul (fdiv (of_nat d) (of_nat t)) 100 \<longleftrightarrow> t \<le> 4 * d"
proof
  assume "t \<le> 4 * d"
  then have "(of_nat t :: rat) \<le> 4 * of_nat d"
    by (simp only: of_nat_le_iff[where ?'a = rat, symmetric] of_nat_mult of_nat_numeral)
  then have "(1 / 4 :: rat) \<le> of_nat d / of_nat t"
    using assms(1) by (simp add: pos_le_divide_eq)
  then have "fl (1 / 4) \<le> fl (of_nat d / of_nat t)" by (rule fl_mono)
  then have "1 / 4 * 100 \<le> fl (of_nat d / of_nat t) * 100" by (simp only: pct25_at(1) mult_right_mono)
  then have "fl (1 / 4 * 100) \<le> fl (fl (of_nat d / of_nat t) * 100)" by (rule fl_mono)
  then show "25 \<le> fmul (fdiv (of_nat d) (of_nat t)) 100"
    by (simp only: pct25_at fmul_def fdiv_def)
next
  assume a: "25 \<le> fmul (fdiv (of_nat d) (of_nat t)) 100"
  show "t \<le> 4 * d"
  proof (rule ccontr)
    assume "\<not> t \<le> 4 * d"
    then have "4 * d + 1 \<le> t" by simp
    then have 1: "(4 * of_nat d + 1 :: rat) \<le> of_nat t"
      by (simp only: of_nat_le_iff[where ?'a = rat, symmetric] of_nat_mult of_nat_add of_nat_numeral of_nat_1)
    have 2: "(of_nat t :: rat) \<le> 1125899906842624" using assms(2) by simp
    have 3: "(0 :: rat) < of_nat t" using assms(1) by simp
    have "(18014398509481984 * of_nat d :: rat) \<le> 4503599627370495 * of_nat t"
      using 1 2 by linarith
    then have "(of_nat d / of_nat t :: rat) \<le> 4503599627370495 / 18014398509481984"
      using 3 by (simp add: field_simps)
    then have "fl (of_nat d / of_nat t) \<le> fl (4503599627370495 / 18014398509481984)"
      by (rule fl_mono)
    then have "fl (of_nat d / of_nat t) * 100 \<le> 4503599627370495 / 18014398509481984 * 100"
      by (simp only: pct25_below(1) mult_right_mono)
    then have "fl (fl (of_nat d / of_nat t) * 100) \<le> fl (4503599627370495 / 18014398509481984 * 100)"
      by (rule fl_mono)
    then have "fmul (fdiv (of_nat d) (of_nat t)) 100 < 25"
      unfolding fmul_def fdiv_def using pct25_below(2) by linarith
    then show False using a by simp
  qed
qed

lemma c04: "fl (4 / 10) = 3602879701896397 / 9007199254740992" by code_simp

lemma share_gt_40:
  assumes "n < 2 ^ 50" "k \<le> n"
  shows "fmul (of_nat n) (fl (4 / 10)) < of_nat k \<longleftrightarrow> 2 * n < 5 * k"
proof
  assume "2 * n < 5 * k"
  then have k: "0 < k" "2 * n + 1 \<le> 5 * k" by simp_all
  then have 1: "(2 * of_nat n + 1 :: rat) \<le> 5 * of_nat k"
    by (simp only: of_nat_le_iff[where ?'a = rat, symmetric] of_nat_mult of_nat_add of_nat_numeral of_nat_1)
  have 2: "(of_nat n :: rat) \<le> 1125899906842624" using assms(1) by simp
  have kb: "k < 2 ^ 50" using assms by simp
  have "(3602879701896397 * of_nat n :: rat) \<le> 9007199254740992 * of_nat k - 1125899906842624"
    using 1 2 by linarith
  then have 3: "of_nat n * fl (4 / 10) \<le> (of_nat k :: rat) - 1 / 8"
    unfolding c04 by (simp add: field_simps)
  have "0 < 8 * int k - 1" "8 * int k - 1 < 2 ^ 53" using k(1) kb by simp_all
  then have "fl (of_int (8 * int k - 1) * pow2 (- 3)) = of_int (8 * int k - 1) * pow2 (- 3)"
    by (rule fl_exact_pos)
  moreover have "of_int (8 * int k - 1) * pow2 (- 3) = (of_nat k :: rat) - 1 / 8"
    by (simp add: pow2_def field_simps)
  ultimately have "fl (of_nat k - 1 / 8) = (of_nat k :: rat) - 1 / 8" by simp
  then have "fl (of_nat n * fl (4 / 10)) \<le> of_nat k - 1 / 8"
    using fl_mono[OF 3] by simp
  then show "fmul (of_nat n) (fl (4 / 10)) < of_nat k" by (simp add: fmul_def)
next
  assume a: "fmul (of_nat n) (fl (4 / 10)) < of_nat k"
  show "2 * n < 5 * k"
  proof (rule ccontr)
    assume "\<not> 2 * n < 5 * k"
    then have le: "5 * k \<le> 2 * n" by simp
    then have 1: "(5 * of_nat k :: rat) \<le> 2 * of_nat n"
      by (simp only: of_nat_le_iff[where ?'a = rat, symmetric] of_nat_mult of_nat_numeral)
    have "k < 2 ^ 53" using assms by simp
    then have e: "fl (of_nat k) = of_nat k" by (rule fl_of_nat)
    have "(of_nat k :: rat) \<le> of_nat n * fl (4 / 10)" unfolding c04 using 1 by simp
    then have "fl (of_nat k) \<le> fl (of_nat n * fl (4 / 10))" by (rule fl_mono)
    then show False using a by (simp add: e fmul_def)
  qed
qed

subsection \<open>Satisfaction analysis\<close>

lemma foldl_add_sum:
  "foldl (\<lambda>acc (lvl, n). acc + f lvl n) a bd = a + sum_list (map (\<lambda>(lvl, n). f lvl n) bd)"
  by (induction bd arbitrary: a) (auto simp: add.assoc)

lemma foldl_cond_sum:
  "foldl (\<lambda>acc (lvl, n). if P lvl then acc + n else acc) a bd
     = a + sum_list (map snd (filter (\<lambda>(lvl, n). P lvl) bd))"
  by (induction bd arbitrary: a) (auto simp: add.assoc)

lemma weight_labels:
  "weight ''Muito satisfeito'' = Own 5" "weight ''Satisfeito'' = Own 4"
  "weight ''Neutro'' = Own 3" "weight ''Insatisfeito'' = Own 2"
  "weight ''Muito insatisfeito'' = Own 1"
  by (simp_all add: weight_def weights_def)

lemma weight_own_or_default:
  "\<not> arr_includes object_prototype_members lvl \<Longrightarrow> weight lvl = Own (spec_weight lvl)"
  by (simp add: weight_def weights_def spec_weight_def)

lemma weight_inherited:
  "arr_includes object_prototype_members lvl \<Longrightarrow> weight lvl = Inherited"
  by (auto simp: weight_def weights_def arr_includes_def object_prototype_members_def)

lemma foldl_score:
  assumes "\<forall>lvl \<in> fst ` set bd. \<not> arr_includes object_prototype_members lvl"
  shows "foldl (\<lambda>acc (lvl, n).
              case acc of
                None \<Rightarrow> None
              | Some s \<Rightarrow> (case weight lvl of
                            Own w \<Rightarrow> Some (s + w * n)
                          | Inherited \<Rightarrow> None))
           (Some a) bd = Some (a + spec_weighted bd)"
  using assms
proof (induction bd arbitrary: a)
  case Nil
  then show ?case by (simp add: spec_weighted_def)
next
  case (Cons p bd)
  obtain lvl n where p: "p = (lvl, n)" by (cases p)
  have w: "weight lvl = Own (spec_weight lvl)"
    using Cons.prems p by (simp add: weight_own_or_default)
  have "\<forall>lvl \<in> fst ` set bd. \<not> arr_includes object_prototype_members lvl"
    using Cons.prems by simp
  from Cons.IH[OF this, of "a + spec_weight lvl * n"] show ?case
    by (simp add: p w spec_weighted_def add.assoc)
qed

lemma totalScore_eq:
  "\<forall>lvl \<in> fst ` set bd. \<not> arr_includes object_prototype_members lvl
     \<Longrightarrow> totalScore bd = Some (spec_weighted bd)"
  using foldl_score[of bd 0] by (simp add: totalScore_def)

lemma foldl_score_NaN:
  "foldl (\<lambda>acc (lvl, n).
              case acc of
                None \<Rightarrow> None
              | Some s \<Rightarrow> (case weight lvl of
                            Own w \<Rightarrow> Some (s + w * n)
                          | Inherited \<Rightarrow> None))
           None bd = None"
  by (induction bd) auto

lemma foldl_score_inherited:
  assumes "\<exists>lvl \<in> fst ` set bd. arr_includes object_prototype_members lvl"
  shows "foldl (\<lambda>acc (lvl, n).
              case acc of
                None \<Rightarrow> None
              | Some s \<Rightarrow> (case weight lvl of
                            Own w \<Rightarrow> Some (s + w * n)
                          | Inherited \<Rightarrow> None))
           acc bd = None"
  using assms
proof (induction bd arbitrary: acc)
  case Nil
  then show ?case by simp
next
  case (Cons p bd)
  obtain lvl n where p: "p = (lvl, n)" by (cases p)
  show ?case
  proof (cases "arr_includes object_prototype_members lvl")
    case True
    then show ?thesis
      by (cases acc) (simp_all add: p weight_inherited foldl_score_NaN)
  next
    case False
    then have "\<exists>lvl \<in> fst ` set bd. arr_includes object_prototype_members lvl"
      using Cons.prems p by auto
    from Cons.IH[OF this] show ?thesis by simp
  qed
qed

text \<open>
  A label that names a member of \<open>Object.prototype\<close> turns the score into \<open>NaN\<close>, whatever
  the other entries are.
\<close>

lemma averageScore_inherited_label:
  assumes "0 < sr_total raw" "0 < spec_responses (sr_breakdown raw)"
    and "\<exists>lvl \<in> fst ` set (sr_breakdown raw). arr_includes object_prototype_members lvl"
  shows "averageScore (analyzeSatisfaction raw) = NaN"
proof -
  have "totalScore (sr_breakdown raw) = None"
    using foldl_score_inherited[OF assms(3)] by (simp add: totalScore_def)
  moreover have "totalResponses (sr_breakdown raw) = spec_responses (sr_breakdown raw)"
    using foldl_add_sum[of "\<lambda>lvl n. n" 0 "sr_breakdown raw"]
    by (simp add: totalResponses_def spec_responses_def case_prod_unfold)
  ultimately show ?thesis
    using assms(1,2)
    by (simp add: analyzeSatisfaction_def averageScoreNumeric_def rounded2_def)
qed

lemma totalResponses_eq: "totalResponses bd = spec_responses bd"
proof -
  have "(\<lambda>(lvl :: string, n :: nat). n) = snd" by auto
  then show ?thesis
    using foldl_add_sum[of "\<lambda>lvl n. n" 0 bd]
    by (simp add: totalResponses_def spec_responses_def)
qed

lemma stats_eq:
  "calculateDissatisfactionStats bd =
     (let pct = (if 0 < spec_responses bd
                 then fl (fl (of_nat (spec_dissatisfied bd) / of_nat (spec_responses bd)) * 100)
                 else 0)
      in \<lparr> dissatisfiedCount = spec_dissatisfied bd, dissatisfiedPercent = pct,
           dissatisfactionTier = (if 40 \<le> pct then ''critical''
                                  else if 25 \<le> pct then ''elevated'' else ''low'') \<rparr>)"
proof -
  have 1: "foldl (\<lambda>acc (lvl, n). acc + n) 0 bd = spec_responses bd"
    using totalResponses_eq[of bd] by (simp add: totalResponses_def)
  have 2: "foldl (\<lambda>acc (lvl, n).
             if lvl = ''Muito insatisfeito'' \<or> lvl = ''Insatisfeito'' then acc + n else acc) 0 bd
           = spec_dissatisfied bd"
    using foldl_cond_sum[of "\<lambda>lvl. lvl = ''Muito insatisfeito'' \<or> lvl = ''Insatisfeito''" 0 bd]
    by (simp add: spec_dissatisfied_def)
  show ?thesis
    unfolding calculateDissatisfactionStats_def 1 2 by (simp add: Let_def fmul_def fdiv_def)
qed

lemma tier_exact:
  assumes "0 < spec_responses bd" "spec_responses bd < 2 ^ 50"
  shows "dissatisfactionTier (calculateDissatisfactionStats bd) =
     (if 2 / 5 \<le> (of_nat (spec_dissatisfied bd) / of_nat (spec_responses bd) :: rat) then ''critical''
      else if 1 / 4 \<le> (of_nat (spec_dissatisfied bd) / of_nat (spec_responses bd) :: rat)
      then ''elevated'' else ''low'')"
proof -
  let ?d = "spec_dissatisfied bd" and ?t = "spec_responses bd"
  have t: "(0 :: rat) < of_nat ?t" using assms(1) by simp
  have a: "2 / 5 \<le> (of_nat ?d / of_nat ?t :: rat) \<longleftrightarrow> 2 * ?t \<le> 5 * ?d"
  proof -
    have "2 / 5 \<le> (of_nat ?d / of_nat ?t :: rat) \<longleftrightarrow> (of_nat (2 * ?t) :: rat) \<le> of_nat (5 * ?d)"
      using t by (simp add: field_simps)
    then show ?thesis by (simp only: of_nat_le_iff)
  qed
  have b: "1 / 4 \<le> (of_nat ?d / of_nat ?t :: rat) \<longleftrightarrow> ?t \<le> 4 * ?d"
  proof -
    have "1 / 4 \<le> (of_nat ?d / of_nat ?t :: rat) \<longleftrightarrow> (of_nat ?t :: rat) \<le> of_nat (4 * ?d)"
      using t by (simp add: field_simps)
    then show ?thesis by (simp only: of_nat_le_iff)
  qed
  show ?thesis
    unfolding a b stats_eq Let_def
    using percent_ge_40[OF assms, of ?d] percent_ge_25[OF assms, of ?d] assms(1)
    by (simp add: fmul_def fdiv_def)
qed

lemma example_satisfaction_values:
  "averageScore (analyzeSatisfaction example_satisfaction) = Number (fl (383 / 100))"
  "st_dissatisfaction (analyzeSatisfaction example_satisfaction)
     = Some \<lparr> dissatisfiedCount = 5, dissatisfiedPercent = 25 / 2, dissatisfactionTier = ''low'' \<rparr>"
  by code_simp+

lemma example_satisfaction_labels:
  "\<forall>lvl \<in> fst ` set (sr_breakdown example_satisfaction).
     \<not> arr_includes object_prototype_members lvl"
  by (simp add: example_satisfaction_def arr_includes_def object_prototype_members_def)

text \<open>
  C6 as stated fails on two inputs. With no responses (\<open>rawData.total\<close> is 0) the function
  returns before any tier is computed, so the report carries no dissatisfaction tier, where
  the claim says low. And one response under the label \<open>constructor\<close> finds an inherited
  member in the weight map, so that the average is \<open>NaN\<close>, not a weighted mean.
\<close>

theorem C6_no_tier_counterexample:
  "st_dissatisfaction (analyzeSatisfaction \<lparr> sr_total = 0, sr_breakdown = [] \<rparr>) = None
   \<and> averageScore (analyzeSatisfaction
        \<lparr> sr_total = 1, sr_breakdown = [(''constructor'', 1)] \<rparr>) = NaN"
  by (simp add: analyzeSatisfaction_def averageScoreNumeric_def rounded2_def totalScore_def
      totalResponses_def weight_def weights_def arr_includes_def object_prototype_members_def)

text \<open>
  C6, amended. The weights of the five labels are 5, 4, 3, 2, 1. With no responses
  \<open>analyzeSatisfaction\<close> reports the average 0 and no dissatisfaction tier. With responses,
  and no label of the breakdown naming a member of \<open>Object.prototype\<close>, the average is the
  weighted mean of the breakdown under these weights, 3 for any other label (the double
  quotient of the two sums, rounded to two decimals); and with responses the dissatisfaction
  tier is critical when the dissatisfied percentage is at least 40, elevated when it is at
  least 25, low otherwise, which for fewer than \<open>2^50\<close> responses is the dissatisfied
  fraction being at least 0.40, at least 0.25, or below. For the counts 10, 20, 5, 3, 2 the
  average score is the double 3.83, the dissatisfied percentage is 12.5 and the tier is low.
\<close>

theorem C6_analyzeSatisfaction:
  "weight ''Muito satisfeito'' = Own 5 \<and> weight ''Satisfeito'' = Own 4
   \<and> weight ''Neutro'' = Own 3 \<and> weight ''Insatisfeito'' = Own 2
   \<and> weight ''Muito insatisfeito'' = Own 1
   \<and> (sr_total raw = 0 \<longrightarrow>
        averageScore (analyzeSatisfaction raw) = Number 0
        \<and> st_dissatisfaction (analyzeSatisfaction raw) = None)
   \<and> (0 < sr_total raw
        \<and> (\<forall>lvl \<in> fst ` set (sr_breakdown raw). \<not> arr_includes object_prototype_members lvl)
       \<longrightarrow> averageScore (analyzeSatisfaction raw) =
             Number (fl (toFixed 2 (if 0 < spec_responses (sr_breakdown raw)
                                    then fl (of_nat (spec_weighted (sr_breakdown raw))
                                             / of_nat (spec_responses (sr_breakdown raw)))
                                    else 0))))
   \<and> (0 < sr_total raw \<longrightarrow>
        (\<exists>d. st_dissatisfaction (analyzeSatisfaction raw) = Some d
              \<and> dissatisfiedPercent d =
                  (if 0 < spec_responses (sr_breakdown raw)
                   then fl (fl (of_nat (spec_dissatisfied (sr_breakdown raw))
                                / of_nat (spec_responses (sr_breakdown raw))) * 100)
                   else 0)
              \<and> dissatisfactionTier d =
                  (if 40 \<le> dissatisfiedPercent d then ''critical''
                   else if 25 \<le> dissatisfiedPercent d then ''elevated'' else ''low'')
              \<and> (0 < spec_responses (sr_breakdown raw) \<and> spec_responses (sr_breakdown raw) < 2 ^ 50
                  \<longrightarrow> dissatisfactionTier d =
                       (if 2 / 5 \<le> (of_nat (spec_dissatisfied (sr_breakdown raw))
                                     / of_nat (spec_responses (sr_breakdown raw)) :: rat)
                        then ''critical''
                        else if 1 / 4 \<le> (of_nat (spec_dissatisfied (sr_breakdown raw))
                                          / of_nat (spec_responses (sr_breakdown raw)) :: rat)
                        then ''elevated'' else ''low''))))
   \<and> averageScore (analyzeSatisfaction example_satisfaction) = Number (fl (383 / 100))
   \<and> st_dissatisfaction (analyzeSatisfaction example_satisfaction)
       = Some \<lparr> dissatisfiedCount = 5, dissatisfiedPercent = 25 / 2,
                dissatisfactionTier = ''low'' \<rparr>"
proof -
  let ?bd = "sr_breakdown raw"
  have z: "sr_total raw = 0 \<longrightarrow>
        averageScore (analyzeSatisfaction raw) = Number 0
        \<and> st_dissatisfaction (analyzeSatisfaction raw) = None"
    by (simp add: analyzeSatisfaction_def)
  have avg: "averageScore (analyzeSatisfaction raw) =
           Number (fl (toFixed 2 (if 0 < spec_responses ?bd
                          then fl (of_nat (spec_weighted ?bd) / of_nat (spec_responses ?bd))
                          else 0)))"
    if "0 < sr_total raw"
      and "\<forall>lvl \<in> fst ` set ?bd. \<not> arr_includes object_prototype_members lvl"
    using that(1) totalScore_eq[OF that(2)]
    by (simp add: analyzeSatisfaction_def averageScoreNumeric_def rounded2_def
        totalResponses_eq fdiv_def)
  have d: "st_dissatisfaction (analyzeSatisfaction raw) = Some (calculateDissatisfactionStats ?bd)"
    if "0 < sr_total raw"
    using that by (simp add: analyzeSatisfaction_def)
  have p: "dissatisfiedPercent (calculateDissatisfactionStats ?bd) =
                  (if 0 < spec_responses ?bd
                   then fl (fl (of_nat (spec_dissatisfied ?bd) / of_nat (spec_responses ?bd)) * 100)
                   else 0)"
    by (simp add: stats_eq Let_def)
  have t: "dissatisfactionTier (calculateDissatisfactionStats ?bd) =
                  (if 40 \<le> dissatisfiedPercent (calculateDissatisfactionStats ?bd) then ''critical''
                   else if 25 \<le> dissatisfiedPercent (calculateDissatisfactionStats ?bd)
                   then ''elevated'' else ''low'')"
    by (simp add: stats_eq Let_def)
  have tiers: "0 < sr_total raw \<longrightarrow>
        (\<exists>d. st_dissatisfaction (analyzeSatisfaction raw) = Some d
              \<and> dissatisfiedPercent d =
                  (if 0 < spec_responses ?bd
                   then fl (fl (of_nat (spec_dissatisfied ?bd) / of_nat (spec_responses ?bd)) * 100)
                   else 0)
              \<and> dissatisfactionTier d =
                  (if 40 \<le> dissatisfiedPercent d then ''critical''
                   else if 25 \<le> dissatisfiedPercent d then ''elevated'' else ''low'')
              \<and> (0 < spec_responses ?bd \<and> spec_responses ?bd < 2 ^ 50
                  \<longrightarrow> dissatisfactionTier d =
                       (if 2 / 5 \<le> (of_nat (spec_dissatisfied ?bd) / of_nat (spec_responses ?bd) :: rat)
                        then ''critical''
                        else if 1 / 4 \<le> (of_nat (spec_dissatisfied ?bd)
                                          / of_nat (spec_responses ?bd) :: rat)
                        then ''elevated'' else ''low'')))"
  proof
    assume "0 < sr_total raw"
    from d[OF this] p t tier_exact[of ?bd]
    show "\<exists>d. st_dissatisfaction (analyzeSatisfaction raw) = Some d
              \<and> dissatisfiedPercent d =
                  (if 0 < spec_responses ?bd
                   then fl (fl (of_nat (spec_dissatisfied ?bd) / of_nat (spec_responses ?bd)) * 100)
                   else 0)
              \<and> dissatisfactionTier d =
                  (if 40 \<le> dissatisfiedPercent d then ''critical''
                   else if 25 \<le> dissatisfiedPercent d then ''elevated'' else ''low'')
              \<and> (0 < spec_responses ?bd \<and> spec_responses ?bd < 2 ^ 50
                  \<longrightarrow> dissatisfactionTier d =
                       (if 2 / 5 \<le> (of_nat (spec_dissatisfied ?bd) / of_nat (spec_responses ?bd) :: rat)
                        then ''critical''
                        else if 1 / 4 \<le> (of_nat (spec_dissatisfied ?bd)
                                          / of_nat (spec_responses ?bd) :: rat)
                        then ''elevated'' else ''low''))"
      by (intro exI[of _ "calculateDissatisfactionStats ?bd"] conjI impI) auto
  qed
  show ?thesis
    using z avg tiers weight_labels example_satisfaction_values by blast
qed

text \<open>
  Two instances: the data set of the specification, with 40 responses under the five
  labels, and the data set without responses.
\<close>

theorem C6_analyzeSatisfaction_witness:
  "0 < sr_total example_satisfaction
   \<and> list_all (\<lambda>lvl. \<not> arr_includes object_prototype_members lvl)
         (map fst (sr_breakdown example_satisfaction))
   \<and> averageScore (analyzeSatisfaction example_satisfaction) = Number (fl (383 / 100))
   \<and> (\<exists>d. st_dissatisfaction (analyzeSatisfaction example_satisfaction) = Some d
          \<and> dissatisfiedPercent d = 25 / 2 \<and> dissatisfactionTier d = ''low'')
   \<and> sr_total \<lparr> sr_total = 0, sr_breakdown = [] \<rparr> = 0
   \<and> averageScore (analyzeSatisfaction \<lparr> sr_total = 0, sr_breakdown = [] \<rparr>) = Number 0
   \<and> st_dissatisfaction (analyzeSatisfaction \<lparr> sr_total = 0, sr_breakdown = [] \<rparr>) = None"
proof -
  have 1: "0 < sr_total example_satisfaction" by (simp add: example_satisfaction_def)
  have 2: "sr_total \<lparr> sr_total = 0, sr_breakdown = [] \<rparr> = 0" by simp
  have 3: "list_all (\<lambda>lvl. \<not> arr_includes object_prototype_members lvl)
         (map fst (sr_breakdown example_satisfaction))"
    using example_satisfaction_labels by (simp add: list_all_iff)
  from C6_analyzeSatisfaction[of example_satisfaction] 1 example_satisfaction_labels
    C6_analyzeSatisfaction[of "\<lparr> sr_total = 0, sr_breakdown = [] \<rparr>"] 2 3
  show ?thesis by simp
qed

subsection \<open>Neighborhood analysis\<close>

lemma responseRate_nonneg: "n \<in> set (neighborhoodsRaw raw) \<Longrightarrow> 0 \<le> responseRate n"
  by (auto simp: neighborhoodsRaw_def fmul_def fdiv_def intro!: fl_nonneg mult_nonneg_nonneg)

lemma length_filter_byResponse:
  "length (filter P (byResponse rows)) = length (filter P rows)"
proof -
  have "mset (filter P (byResponse rows)) = mset (filter P rows)"
    by (simp add: byResponse_def)
  then show ?thesis by (metis size_mset)
qed

lemma filter_byResponse_Nil:
  "filter P (byResponse rows) = [] \<longleftrightarrow> filter P rows = []"
  using length_filter_byResponse[of P rows] by (metis length_0_conv)

lemma byResponse_Nil: "byResponse rows = [] \<longleftrightarrow> rows = []"
  by (metis byResponse_def length_0_conv length_sort)

lemma length_byResponse: "length (byResponse rows) = length rows"
  by (simp add: byResponse_def)

lemma below_cutoff_iff:
  assumes "(0 :: rat) \<le> r"
  shows "r < max 0 t \<longleftrightarrow> r < t"
  using assms by (auto simp: max_def)

lemma needsAttention_eq:
  "needsAttention (analyzeNeighborhoods raw) =
     map (\<lambda>n. (nb_name n, toFixed 1 (responseRate n)))
       (filter (\<lambda>n. responseRate n < fsub (avgResponse (byResponse (neighborhoodsRaw raw))) 10)
          (neighborhoodsRaw raw))"
proof -
  have "filter (\<lambda>n. responseRate n < attentionCutoff (byResponse (neighborhoodsRaw raw)))
          (neighborhoodsRaw raw)
        = filter (\<lambda>n. responseRate n < fsub (avgResponse (byResponse (neighborhoodsRaw raw))) 10)
          (neighborhoodsRaw raw)"
    by (rule filter_cong[OF refl])
       (simp add: attentionCutoff_def below_cutoff_iff[OF responseRate_nonneg])
  then show ?thesis by (simp add: analyzeNeighborhoods_def Let_def)
qed

lemma lowPerforming_length:
  "length (lowPerforming (byResponse rows)) =
     length (filter (\<lambda>n. responseRate n < fsub (avgResponse (byResponse rows)) 10) rows)"
  by (simp add: lowPerforming_def length_filter_byResponse)

lemma equity_eq:
  "equityAssessment (analyzeNeighborhoods raw) =
     (let rows = neighborhoodsRaw raw;
          k = length (filter (\<lambda>n. responseRate n < fsub (avgResponse (byResponse rows)) 10) rows)
      in if raw = [] then ''unknown''
         else if k = 0 then ''excellent''
         else if fmul (of_nat (length raw)) (fl (4 / 10)) < of_nat k then ''concern''
         else ''moderate'')"
proof (cases "raw = []")
  case True
  then show ?thesis
    by (simp add: analyzeNeighborhoods_def generateNeighborhoodInsights_def Let_def
        neighborhoodsRaw_def byResponse_def)
next
  case False
  have l: "length (neighborhoodsRaw raw) = length raw" by (simp add: neighborhoodsRaw_def)
  have e: "equityAssessment (analyzeNeighborhoods raw) =
             generateNeighborhoodInsights (byResponse (neighborhoodsRaw raw))"
    by (simp add: analyzeNeighborhoods_def Let_def)
  show ?thesis
    unfolding e generateNeighborhoodInsights_def lowPerforming_length length_byResponse l Let_def
    using False by simp
qed


lemma avg_le_10_empty:
  assumes "avgResponse (byResponse (neighborhoodsRaw raw)) \<le> 10"
  shows "needsAttention (analyzeNeighborhoods raw) = []"
proof -
  have "fsub (avgResponse (byResponse (neighborhoodsRaw raw))) 10 \<le> 0"
    unfolding fsub_def using assms by (intro fl_nonpos) simp
  then have "\<And>n. n \<in> set (neighborhoodsRaw raw) \<Longrightarrow>
      \<not> responseRate n < fsub (avgResponse (byResponse (neighborhoodsRaw raw))) 10"
    using responseRate_nonneg[of _ raw] by (metis not_less order_trans)
  then show ?thesis by (simp add: needsAttention_eq filter_empty_conv)
qed

lemma needsAttention_Nil_iff:
  "needsAttention (analyzeNeighborhoods raw) = []
     \<longleftrightarrow> lowPerforming (byResponse (neighborhoodsRaw raw)) = []"
proof -
  have "needsAttention (analyzeNeighborhoods raw) = [] \<longleftrightarrow>
        length (filter (\<lambda>n. responseRate n < fsub (avgResponse (byResponse (neighborhoodsRaw raw))) 10)
          (neighborhoodsRaw raw)) = 0"
    by (simp add: needsAttention_eq)
  also have "\<dots> \<longleftrightarrow> length (lowPerforming (byResponse (neighborhoodsRaw raw))) = 0"
    by (simp only: lowPerforming_length)
  finally show ?thesis by simp
qed

lemma needsAttention_equity:
  "needsAttention (analyzeNeighborhoods raw) = []
     \<longleftrightarrow> equityAssessment (analyzeNeighborhoods raw) = ''excellent''
         \<or> equityAssessment (analyzeNeighborhoods raw) = ''unknown''"
proof -
  have e: "equityAssessment (analyzeNeighborhoods raw) =
             generateNeighborhoodInsights (byResponse (neighborhoodsRaw raw))"
    by (simp add: analyzeNeighborhoods_def Let_def)
  have "lowPerforming [] = []" by (simp add: lowPerforming_def)
  then show ?thesis
    unfolding needsAttention_Nil_iff e generateNeighborhoodInsights_def
    by (cases "byResponse (neighborhoodsRaw raw) = []") auto
qed

lemma example_rows:
  "neighborhoodsRaw example_neighborhoods =
     [\<lparr> nb_name = ''A'', nb_total = 10, nb_sent = 10, nb_clicked = 5, nb_answered = 9,
        responseRate = 90, engagementRate = 50 \<rparr>,
      \<lparr> nb_name = ''B'', nb_total = 20, nb_sent = 20, nb_clicked = 10, nb_answered = 17,
        responseRate = 85, engagementRate = 50 \<rparr>,
      \<lparr> nb_name = ''C'', nb_total = 5, nb_sent = 5, nb_clicked = 2, nb_answered = 2,
        responseRate = 40, engagementRate = 40 \<rparr>,
      \<lparr> nb_name = ''D'', nb_total = 50, nb_sent = 50, nb_clicked = 25, nb_answered = 19,
        responseRate = 38, engagementRate = 50 \<rparr>]"
  by code_simp


lemma example_ranked:
  "byResponse (neighborhoodsRaw example_neighborhoods) = neighborhoodsRaw example_neighborhoods"
  unfolding example_rows by code_simp

lemma example_avg: "avgResponse (neighborhoodsRaw example_neighborhoods) = 253 / 4"
  unfolding example_rows by code_simp

lemma example_cutoff: "attentionCutoff (neighborhoodsRaw example_neighborhoods) = 213 / 4"
  unfolding attentionCutoff_def example_avg by code_simp

lemma example_low:
  "lowPerforming (neighborhoodsRaw example_neighborhoods)
     = [\<lparr> nb_name = ''C'', nb_total = 5, nb_sent = 5, nb_clicked = 2, nb_answered = 2,
          responseRate = 40, engagementRate = 40 \<rparr>,
        \<lparr> nb_name = ''D'', nb_total = 50, nb_sent = 50, nb_clicked = 25, nb_answered = 19,
          responseRate = 38, engagementRate = 50 \<rparr>]"
  unfolding lowPerforming_def example_avg unfolding example_rows by code_simp

lemma example_neighborhoods_values:
  "map responseRate (neighborhoodsRaw example_neighborhoods) = [90, 85, 40, 38]"
  "avgResponse (byResponse (neighborhoodsRaw example_neighborhoods)) = 253 / 4"
  "attentionCutoff (byResponse (neighborhoodsRaw example_neighborhoods)) = 213 / 4"
  "needsAttention (analyzeNeighborhoods example_neighborhoods) = [(''C'', 40), (''D'', 38)]"
  "equityAssessment (analyzeNeighborhoods example_neighborhoods) = ''concern''"
proof -
  show "map responseRate (neighborhoodsRaw example_neighborhoods) = [90, 85, 40, 38]"
    unfolding example_rows by simp
  show "avgResponse (byResponse (neighborhoodsRaw example_neighborhoods)) = 253 / 4"
    unfolding example_ranked by (rule example_avg)
  show "attentionCutoff (byResponse (neighborhoodsRaw example_neighborhoods)) = 213 / 4"
    unfolding example_ranked by (rule example_cutoff)
  have "needsAttention (analyzeNeighborhoods example_neighborhoods) =
          map (\<lambda>n. (nb_name n, toFixed 1 (responseRate n)))
            (filter (\<lambda>n. responseRate n < 213 / 4) (neighborhoodsRaw example_neighborhoods))"
    by (simp add: analyzeNeighborhoods_def Let_def example_ranked example_cutoff)
  also have "\<dots> = [(''C'', 40), (''D'', 38)]"
    unfolding example_rows by code_simp
  finally show "needsAttention (analyzeNeighborhoods example_neighborhoods) = [(''C'', 40), (''D'', 38)]" .
  have "equityAssessment (analyzeNeighborhoods example_neighborhoods)
          = generateNeighborhoodInsights (neighborhoodsRaw example_neighborhoods)"
    by (simp add: analyzeNeighborhoods_def Let_def example_ranked)
  also have "\<dots> = ''concern''"
    unfolding generateNeighborhoodInsights_def example_low unfolding example_rows by code_simp
  finally show "equityAssessment (analyzeNeighborhoods example_neighborhoods) = ''concern''" .
qed

lemma analyzeNeighborhoods_empty:
  "needsAttention (analyzeNeighborhoods []) = []"
  "equityAssessment (analyzeNeighborhoods []) = ''unknown''"
  by (simp_all add: analyzeNeighborhoods_def generateNeighborhoodInsights_def Let_def
      neighborhoodsRaw_def byResponse_def)

text \<open>
  C7 as stated fails on the empty record set: no neighborhood falls below the cutoff
  there, and the equity assessment is unknown, where the claim says excellent.
\<close>

theorem C7_empty_counterexample:
  "length (filter (\<lambda>n. responseRate n < fsub (avgResponse (byResponse (neighborhoodsRaw []))) 10)
             (neighborhoodsRaw [])) = 0
   \<and> needsAttention (analyzeNeighborhoods []) = []
   \<and> equityAssessment (analyzeNeighborhoods []) = ''unknown''
   \<and> equityAssessment (analyzeNeighborhoods []) \<noteq> ''excellent''"
  by (simp add: analyzeNeighborhoods_empty neighborhoodsRaw_def)

text \<open>
  C7, amended. \<open>analyzeNeighborhoods\<close> flags as \<open>needsAttention\<close> exactly the neighborhoods
  whose response rate is below the mean response rate minus 10 (the clamp of the cutoff at
  zero changes nothing, rates being non-negative). Without any neighborhood nothing is
  flagged and the equity assessment is unknown. With at least one neighborhood the equity
  assessment is excellent when none is flagged, concern when the flagged ones are more than
  \<open>length * 0.4\<close>, which for fewer than \<open>2^50\<close> neighborhoods is more than 40 percent of
  them, and moderate otherwise. For the rates 90, 85, 40, 38 the mean is 63.25, the cutoff
  53.25, two neighborhoods are flagged and the assessment is concern.
\<close>

theorem C7_analyzeNeighborhoods:
  "needsAttention (analyzeNeighborhoods raw) =
     map (\<lambda>n. (nb_name n, toFixed 1 (responseRate n)))
       (filter (\<lambda>n. responseRate n < fsub (avgResponse (byResponse (neighborhoodsRaw raw))) 10)
          (neighborhoodsRaw raw))
   \<and> (raw = [] \<longrightarrow>
        needsAttention (analyzeNeighborhoods raw) = []
        \<and> equityAssessment (analyzeNeighborhoods raw) = ''unknown'')
   \<and> (raw \<noteq> [] \<longrightarrow>
        equityAssessment (analyzeNeighborhoods raw) =
          (if length (needsAttention (analyzeNeighborhoods raw)) = 0 then ''excellent''
           else if fmul (of_nat (length raw)) (fl (4 / 10))
                     < of_nat (length (needsAttention (analyzeNeighborhoods raw)))
           then ''concern'' else ''moderate''))
   \<and> (raw \<noteq> [] \<and> length raw < 2 ^ 50 \<longrightarrow>
        equityAssessment (analyzeNeighborhoods raw) =
          (if length (needsAttention (analyzeNeighborhoods raw)) = 0 then ''excellent''
           else if 4 / 10 * (of_nat (length raw) :: rat)
                     < of_nat (length (needsAttention (analyzeNeighborhoods raw)))
           then ''concern'' else ''moderate''))
   \<and> map responseRate (neighborhoodsRaw example_neighborhoods) = [90, 85, 40, 38]
   \<and> avgResponse (byResponse (neighborhoodsRaw example_neighborhoods)) = 253 / 4
   \<and> attentionCutoff (byResponse (neighborhoodsRaw example_neighborhoods)) = 213 / 4
   \<and> length (needsAttention (analyzeNeighborhoods example_neighborhoods)) = 2
   \<and> equityAssessment (analyzeNeighborhoods example_neighborhoods) = ''concern''"
proof -
  let ?rows = "neighborhoodsRaw raw"
  let ?k = "length (needsAttention (analyzeNeighborhoods raw))"
  have k: "?k = length (filter (\<lambda>n. responseRate n < fsub (avgResponse (byResponse ?rows)) 10) ?rows)"
    by (simp add: needsAttention_eq)
  have kn: "?k \<le> length raw"
    unfolding k using length_filter_le[of _ ?rows] by (simp add: neighborhoodsRaw_def)
  have e1: "raw \<noteq> [] \<Longrightarrow> equityAssessment (analyzeNeighborhoods raw) =
          (if ?k = 0 then ''excellent''
           else if fmul (of_nat (length raw)) (fl (4 / 10)) < of_nat ?k
           then ''concern'' else ''moderate'')"
    unfolding k by (simp add: equity_eq Let_def)
  have s: "length raw < 2 ^ 50 \<Longrightarrow>
       fmul (of_nat (length raw)) (fl (4 / 10)) < of_nat ?k
         \<longleftrightarrow> 4 / 10 * (of_nat (length raw) :: rat) < of_nat ?k"
  proof -
    assume b: "length raw < 2 ^ 50"
    have "4 / 10 * (of_nat (length raw) :: rat) < of_nat ?k
            \<longleftrightarrow> (of_nat (2 * length raw) :: rat) < of_nat (5 * ?k)"
      by (simp add: field_simps)
    also have "\<dots> \<longleftrightarrow> 2 * length raw < 5 * ?k" by (simp only: of_nat_less_iff)
    finally show ?thesis using share_gt_40[OF b kn] by simp
  qed
  have e2: "raw \<noteq> [] \<and> length raw < 2 ^ 50 \<longrightarrow>
        equityAssessment (analyzeNeighborhoods raw) =
          (if ?k = 0 then ''excellent''
           else if 4 / 10 * (of_nat (length raw) :: rat) < of_nat ?k
           then ''concern'' else ''moderate'')"
    using e1 s by simp
  have ex: "length (needsAttention (analyzeNeighborhoods example_neighborhoods)) = 2"
    by (simp add: example_neighborhoods_values(4))
  have e0: "raw = [] \<longrightarrow>
        needsAttention (analyzeNeighborhoods raw) = []
        \<and> equityAssessment (analyzeNeighborhoods raw) = ''unknown''"
    using analyzeNeighborhoods_empty by simp
  show ?thesis
    using needsAttention_eq[of raw] e0 e1 e2 ex example_neighborhoods_values(1,2,3,5)
    by blast
qed

text \<open>
  Two instances: the four neighborhoods of the specification, two of them flagged, and the
  empty record set.
\<close>

theorem C7_analyzeNeighborhoods_witness:
  "example_neighborhoods \<noteq> [] \<and> length example_neighborhoods < 2 ^ 50
   \<and> needsAttention (analyzeNeighborhoods example_neighborhoods) = [(''C'', 40), (''D'', 38)]
   \<and> equityAssessment (analyzeNeighborhoods example_neighborhoods) = ''concern''
   \<and> 4 / 10 * (of_nat (length example_neighborhoods) :: rat)
        < of_nat (length (needsAttention (analyzeNeighborhoods example_neighborhoods)))
   \<and> needsAttention (analyzeNeighborhoods []) = []
   \<and> equityAssessment (analyzeNeighborhoods []) = ''unknown''"
proof -
  have 1: "example_neighborhoods \<noteq> []" by (simp add: example_neighborhoods_def)
  have 2: "length example_neighborhoods < 2 ^ 50" by (simp add: example_neighborhoods_def)
  have 3: "length example_neighborhoods = 4" by (simp add: example_neighborhoods_def)
  from C7_analyzeNeighborhoods[of example_neighborhoods] 1 2
  have 4: "equityAssessment (analyzeNeighborhoods example_neighborhoods) = ''concern''" by blast
  from C7_analyzeNeighborhoods[of "[]"]
  have 5: "needsAttention (analyzeNeighborhoods []) = []
           \<and> equityAssessment (analyzeNeighborhoods []) = ''unknown''" by blast
  show ?thesis using 1 2 4 5 by (simp add: example_neighborhoods_values(4) 3)
qed

text \<open>
  C10 as stated fails in its last part: there is no record set for which
  \<open>needsAttention\<close> is empty while the equity assessment reports low-performing
  neighborhoods (concern or moderate), and none for which the clamped and the unclamped
  threshold select differently.
\<close>

theorem C10_outputs_never_disagree_counterexample:
  "\<not> (\<exists>raw. needsAttention (analyzeNeighborhoods raw) = []
            \<and> (equityAssessment (analyzeNeighborhoods raw) = ''concern''
                \<or> equityAssessment (analyzeNeighborhoods raw) = ''moderate''))
   \<and> \<not> (\<exists>raw. (needsAttention (analyzeNeighborhoods raw) = [])
                 \<noteq> (lowPerforming (byResponse (neighborhoodsRaw raw)) = []))"
  using needsAttention_equity needsAttention_Nil_iff by auto

text \<open>
  C10, amended. The cutoff of \<open>needsAttention\<close> is \<open>max(0, mean - 10)\<close>, so a mean
  response rate of at most 10 leaves \<open>needsAttention\<close> empty for every record set.
  \<open>generateNeighborhoodInsights\<close> uses the unclamped \<open>mean - 10\<close>; as no response rate is
  negative, both thresholds select the same neighborhoods: \<open>needsAttention\<close> is empty
  exactly when no neighborhood is low performing, that is when the equity assessment is
  excellent, or unknown, which is the assessment of an empty record set.
\<close>

theorem C10_clamped_cutoff:
  "attentionCutoff (byResponse (neighborhoodsRaw raw))
     = max 0 (fsub (avgResponse (byResponse (neighborhoodsRaw raw))) 10)
   \<and> (avgResponse (byResponse (neighborhoodsRaw raw)) \<le> 10
        \<longrightarrow> needsAttention (analyzeNeighborhoods raw) = [])
   \<and> lowPerforming (byResponse (neighborhoodsRaw raw))
       = filter (\<lambda>n. responseRate n < fsub (avgResponse (byResponse (neighborhoodsRaw raw))) 10)
           (byResponse (neighborhoodsRaw raw))
   \<and> (needsAttention (analyzeNeighborhoods raw) = []
        \<longleftrightarrow> lowPerforming (byResponse (neighborhoodsRaw raw)) = [])
   \<and> (needsAttention (analyzeNeighborhoods raw) = []
        \<longleftrightarrow> equityAssessment (analyzeNeighborhoods raw) = ''excellent''
            \<or> equityAssessment (analyzeNeighborhoods raw) = ''unknown'')
   \<and> (equityAssessment (analyzeNeighborhoods raw) = ''unknown'' \<longleftrightarrow> raw = [])"
proof -
  have u: "equityAssessment (analyzeNeighborhoods raw) = ''unknown'' \<longleftrightarrow> raw = []"
    by (simp add: equity_eq Let_def)
  show ?thesis
    using avg_le_10_empty[of raw] needsAttention_Nil_iff[of raw] needsAttention_equity[of raw] u
    by (simp add: attentionCutoff_def lowPerforming_def)
qed

text \<open>An instance: response rates 10 and 0, mean 5.\<close>

theorem C10_clamped_cutoff_witness:
  "avgResponse (byResponse (neighborhoodsRaw
      [(''A'', \<lparr> ns_total = 10, ns_sent = 10, ns_clicked = 1, ns_answered = 1 \<rparr>),
       (''B'', \<lparr> ns_total = 10, ns_sent = 10, ns_clicked = 0, ns_answered = 0 \<rparr>)])) \<le> 10
   \<and> needsAttention (analyzeNeighborhoods
      [(''A'', \<lparr> ns_total = 10, ns_sent = 10, ns_clicked = 1, ns_answered = 1 \<rparr>),
       (''B'', \<lparr> ns_total = 10, ns_sent = 10, ns_clicked = 0, ns_answered = 0 \<rparr>)]) = []
   \<and> equityAssessment (analyzeNeighborhoods
      [(''A'', \<lparr> ns_total = 10, ns_sent = 10, ns_clicked = 1, ns_answered = 1 \<rparr>),
       (''B'', \<lparr> ns_total = 10, ns_sent = 10, ns_clicked = 0, ns_answered = 0 \<rparr>)]) = ''excellent''"
proof -
  let ?raw = "[(''A'', \<lparr> ns_total = 10, ns_sent = 10, ns_clicked = 1, ns_answered = 1 \<rparr>),
               (''B'', \<lparr> ns_total = 10, ns_sent = 10, ns_clicked = 0, ns_answered = 0 \<rparr>)]"
  have 1: "avgResponse (byResponse (neighborhoodsRaw ?raw)) \<le> 10" by code_simp
  have 2: "?raw \<noteq> []" by simp
  from C10_clamped_cutoff[of ?raw] 1 2 show ?thesis by blast
qed

end
